theory Spec2Isabelle
  imports Complex_Main
begin

section \<open>Numbers, arrays and the clock\<close>

text \<open>
  JavaScript numbers are modelled as \<^typ>\<open>real\<close>: every arithmetic step is exact, IEEE
  rounding is not part of the model. Where the source can produce \<open>NaN\<close> (the mean of an
  empty array, \<open>0 / 0\<close>) the value is a \<^typ>\<open>real option\<close> with \<open>None\<close> for \<open>NaN\<close>.
  Layer indices, counters and millisecond timestamps are integers in every run of the
  program and are modelled as \<^typ>\<open>int\<close> or \<^typ>\<open>nat\<close>.
  \<open>Date.now()\<close> is an input: each operation takes the reading \<open>now\<close> of the clock that
  its calls of \<open>Date.now()\<close> return. \<open>Math.random()\<close> is an input as well.
\<close>

text \<open>\<open>xs.slice(-n)\<close>: the last \<open>n\<close> elements, the whole array when it is shorter.\<close>

definition slice_last :: "nat \<Rightarrow> 'a list \<Rightarrow> 'a list" where
  "slice_last n xs = drop (length xs - n) xs"

text \<open>\<open>Math.round\<close>: the nearest integer, halves rounded up.\<close>

definition js_round :: "real \<Rightarrow> int" where
  "js_round x = \<lfloor>x + 1 / 2\<rfloor>"

text \<open>\<open>calculateVariation\<close> (the same body in both classes of quality.js): the
  population standard deviation, 0 for the empty array.\<close>

definition calculateVariation :: "real list \<Rightarrow> real" where
  "calculateVariation data =
     (if length data = 0 then 0
      else let avg = sum_list data / real (length data);
               variance = sum_list (map (\<lambda>b. (b - avg) ^ 2) data) / real (length data)
           in sqrt variance)"

section \<open>SpaghettiDetector (quality.js)\<close>

text \<open>
  The per-layer entry of \<open>gcodeAnalysis.layers\<close>. A field that is absent in the source
  compares false in every guard, as the value 0 (or \<open>False\<close>) does; \<open>empty_layer\<close> is the
  \<open>{}\<close> that stands in for a missing layer.
\<close>

record layer_data =
  overhangs :: real
  bridges :: real
  smallFeatures :: real
  solidInfill :: real
  supportMaterial :: bool

definition empty_layer :: layer_data where
  "empty_layer = \<lparr>overhangs = 0, bridges = 0, smallFeatures = 0, solidInfill = 0,
                  supportMaterial = False\<rparr>"

text \<open>\<open>gcodeAnalysis.layers\<close>, keyed by layer index; an absent \<open>layers\<close> is the empty map.\<close>

type_synonym gcode_analysis = "int \<rightharpoonup> layer_data"

text \<open>The weights of \<open>riskZones\<close> and \<open>safeZones\<close> that the code reads.\<close>

definition w_overhangs :: real where "w_overhangs = 0.9"
definition w_bridges :: real where "w_bridges = 0.8"
definition w_smallFeatures :: real where "w_smallFeatures = 0.7"
definition w_firstLayers :: real where "w_firstLayers = 0.95"
definition w_solidInfill :: real where "w_solidInfill = 0.1"
definition w_supported :: real where "w_supported = 0.1"

definition calculateRiskScore :: "gcode_analysis \<Rightarrow> int \<Rightarrow> real" where
  "calculateRiskScore gcodeAnalysis currentLayer =
     (let layerData = (case gcodeAnalysis currentLayer of Some d \<Rightarrow> d | None \<Rightarrow> empty_layer);
          (totalRisk, weightSum) = (0, 0);
          (totalRisk, weightSum) =
            (if overhangs layerData > 0
             then (totalRisk + min (overhangs layerData / 10) 1 * w_overhangs,
                   weightSum + w_overhangs)
             else (totalRisk, weightSum));
          (totalRisk, weightSum) =
            (if bridges layerData > 0
             then (totalRisk + min (bridges layerData / 5) 1 * w_bridges,
                   weightSum + w_bridges)
             else (totalRisk, weightSum));
          (totalRisk, weightSum) =
            (if currentLayer \<le> 3
             then (totalRisk + w_firstLayers, weightSum + w_firstLayers)
             else (totalRisk, weightSum));
          (totalRisk, weightSum) =
            (if smallFeatures layerData > 0
             then (totalRisk + min (smallFeatures layerData / 20) 1 * w_smallFeatures,
                   weightSum + w_smallFeatures)
             else (totalRisk, weightSum));
          totalRisk = (if solidInfill layerData > 0.8
                       then totalRisk * (1 - w_solidInfill) else totalRisk);
          totalRisk = (if supportMaterial layerData
                       then totalRisk * (1 - w_supported) else totalRisk)
      in if weightSum > 0 then min (totalRisk / weightSum) 1 else 0)"

text \<open>An entry of the list returned by \<open>analyzeSensorPatterns\<close>.\<close>

record sensor_alert =
  sa_type :: string
  severity :: string
  sa_message :: string
  sa_confidence :: real

text \<open>The three arrays handed to \<open>analyzeSensorPatterns\<close>; an absent array fails every
  length guard, as the empty one does.\<close>

record sensor_windows =
  sw_vibration :: "real list"
  sw_temperature :: "real list"
  sw_filamentFlow :: "real list"

definition vibration_anomaly :: sensor_alert where
  "vibration_anomaly = \<lparr>sa_type = ''vibration_anomaly'', severity = ''high'',
     sa_message = ''Unusual vibration pattern detected - possible detached print'',
     sa_confidence = 0.8\<rparr>"

definition temperature_instability :: sensor_alert where
  "temperature_instability = \<lparr>sa_type = ''temperature_instability'', severity = ''medium'',
     sa_message = ''Temperature instability may indicate print failure'',
     sa_confidence = 0.6\<rparr>"

definition low_flow :: sensor_alert where
  "low_flow = \<lparr>sa_type = ''low_flow'', severity = ''high'',
     sa_message = ''Low filament flow - possible jam or detachment'',
     sa_confidence = 0.9\<rparr>"

definition erratic_flow :: sensor_alert where
  "erratic_flow = \<lparr>sa_type = ''erratic_flow'', severity = ''medium'',
     sa_message = ''Erratic extrusion pattern detected'',
     sa_confidence = 0.7\<rparr>"

definition analyzeSensorPatterns :: "sensor_windows \<Rightarrow> sensor_alert list" where
  "analyzeSensorPatterns sensorData =
     (let alerts = [];
          alerts =
            (if length (sw_vibration sensorData) > 10
             then let recentVibration = slice_last 10 (sw_vibration sensorData);
                      avgVibration = sum_list recentVibration / real (length recentVibration);
                      vibrationSpikes = length (filter (\<lambda>v. v > avgVibration * 2) recentVibration)
                  in if vibrationSpikes > 3 then alerts @ [vibration_anomaly] else alerts
             else alerts);
          alerts =
            (if length (sw_temperature sensorData) > 5
             then let recentTemp = slice_last 5 (sw_temperature sensorData);
                      tempVariation = calculateVariation recentTemp
                  in if tempVariation > 8 then alerts @ [temperature_instability] else alerts
             else alerts);
          alerts =
            (if length (sw_filamentFlow sensorData) > 5
             then let recentFlow = slice_last 5 (sw_filamentFlow sensorData);
                      avgFlow = sum_list recentFlow / real (length recentFlow);
                      alerts = (if avgFlow < 100 then alerts @ [low_flow] else alerts);
                      flowVariation = calculateVariation recentFlow
                  in if flowVariation > avgFlow * 0.5 then alerts @ [erratic_flow] else alerts
             else alerts)
      in alerts)"

text \<open>
  \<open>analyzeVisualPatterns\<close>. The camera data is \<open>None\<close> when \<open>cameraData\<close> or its
  \<open>lastSnapshot\<close> is missing; \<open>random\<close> is the value \<open>Math.random()\<close> returns.
\<close>

record visual_pattern =
  vp_type :: string
  vp_location :: "real \<times> real"
  vp_confidence :: real
  vp_description :: string

record visual_analysis =
  va_confidence :: real
  patterns :: "visual_pattern list"

definition analyzeVisualPatterns :: "int option \<Rightarrow> real \<Rightarrow> visual_analysis" where
  "analyzeVisualPatterns lastSnapshot random =
     (case lastSnapshot of
        None \<Rightarrow> \<lparr>va_confidence = 0, patterns = []\<rparr>
      | Some _ \<Rightarrow>
          let patterns = [];
              patterns = (if random > 0.8
                          then patterns @ [\<lparr>vp_type = ''stringy_material'', vp_location = (150, 120),
                                 vp_confidence = 0.75,
                                 vp_description = ''Stringy material detected near print area''\<rparr>]
                          else patterns);
              patterns = (if random > 0.9
                          then patterns @ [\<lparr>vp_type = ''nozzle_buildup'', vp_location = (0, 0),
                                 vp_confidence = 0.85,
                                 vp_description = ''Material buildup on nozzle detected''\<rparr>]
                          else patterns);
              overallConfidence =
                (if length patterns > 0
                 then sum_list (map vp_confidence patterns) / real (length patterns) else 0)
          in \<lparr>va_confidence = overallConfidence, patterns = patterns\<rparr>)"

text \<open>The fields of the detector that change: the history and the feedback counters.\<close>

record recommendation =
  action :: string
  rec_message :: string
  urgency :: string
  suggestions :: "string list"

datatype risk_level = Low | Medium | High

text \<open>A risk factor; the count that the source interpolates into the description of the
  overhang and bridge factors is kept in \<open>rf_count\<close>.\<close>

record risk_factor =
  factor :: string
  risk :: risk_level
  rf_description :: string
  rf_count :: "real option"

record detection =
  d_timestamp :: int
  d_layer :: int
  d_riskScore :: real
  d_confidence :: real
  d_alerts :: "sensor_alert list"
  riskFactors :: "risk_factor list"
  d_recommendation :: recommendation

record detector =
  detectionHistory :: "detection list"
  falsePositives :: nat
  truePositives :: nat

definition new_detector :: detector where
  "new_detector = \<lparr>detectionHistory = [], falsePositives = 0, truePositives = 0\<rparr>"

definition getHistoricalAccuracy :: "detector \<Rightarrow> real" where
  "getHistoricalAccuracy this =
     (let total = truePositives this + falsePositives this
      in if total = 0 then 0.8 else real (truePositives this) / real total)"

definition calculateConfidence ::
    "detector \<Rightarrow> real \<Rightarrow> sensor_alert list \<Rightarrow> visual_analysis \<Rightarrow> real" where
  "calculateConfidence this riskScore sensorAlerts visualAnalysis =
     (let confidence = riskScore * 0.4;
          highSeverityAlerts = filter (\<lambda>a. severity a = ''high'') sensorAlerts;
          mediumSeverityAlerts = filter (\<lambda>a. severity a = ''medium'') sensorAlerts;
          confidence = confidence + (real (length highSeverityAlerts) * 0.3
                                     + real (length mediumSeverityAlerts) * 0.1);
          confidence = confidence + va_confidence visualAnalysis * 0.2;
          accuracy = getHistoricalAccuracy this;
          confidence = confidence * accuracy
      in min confidence 1)"

definition immediate_intervention :: recommendation where
  "immediate_intervention = \<lparr>action = ''immediate_intervention'',
     rec_message = ''High spaghetti risk detected - consider pausing print for inspection'',
     urgency = ''high'',
     suggestions = [''Check bed adhesion and first layer quality'',
                    ''Verify hotend temperature stability'',
                    ''Inspect for filament jams or tangles'',
                    ''Consider adding support material for overhangs'']\<rparr>"

definition monitor_closely :: recommendation where
  "monitor_closely = \<lparr>action = ''monitor_closely'',
     rec_message = ''Moderate spaghetti risk - monitor next few layers carefully'',
     urgency = ''medium'',
     suggestions = [''Watch for temperature fluctuations'',
                    ''Check camera feed for anomalies'',
                    ''Prepare to intervene if conditions worsen'']\<rparr>"

definition continue_monitoring :: recommendation where
  "continue_monitoring = \<lparr>action = ''continue_monitoring'',
     rec_message = ''Low spaghetti risk - continue normal monitoring'',
     urgency = ''low'',
     suggestions = [''Maintain current print settings'',
                    ''Continue regular monitoring intervals'']\<rparr>"

definition generateRecommendation :: "real \<Rightarrow> sensor_alert list \<Rightarrow> recommendation" where
  "generateRecommendation riskScore sensorAlerts =
     (if riskScore > 0.8 \<or> list_ex (\<lambda>a. severity a = ''high'') sensorAlerts
      then immediate_intervention
      else if riskScore > 0.5 then monitor_closely
      else continue_monitoring)"

definition identifyRiskFactors :: "gcode_analysis \<Rightarrow> int \<Rightarrow> risk_factor list" where
  "identifyRiskFactors gcodeAnalysis currentLayer =
     (let factors = [];
          layerData = (case gcodeAnalysis currentLayer of Some d \<Rightarrow> d | None \<Rightarrow> empty_layer);
          factors = (if currentLayer \<le> 3
                     then factors @ [\<lparr>factor = ''first_layers'', risk = High,
                            rf_description = ''Critical early layers - bed adhesion failure risk'',
                            rf_count = None\<rparr>]
                     else factors);
          factors = (if overhangs layerData > 0
                     then factors @ [\<lparr>factor = ''overhangs_present'',
                            risk = (if overhangs layerData > 5 then High else Medium),
                            rf_description = ''overhang features without support'',
                            rf_count = Some (overhangs layerData)\<rparr>]
                     else factors);
          factors = (if bridges layerData > 0
                     then factors @ [\<lparr>factor = ''bridges_present'',
                            risk = (if bridges layerData > 3 then High else Medium),
                            rf_description = ''bridge features detected'',
                            rf_count = Some (bridges layerData)\<rparr>]
                     else factors);
          factors = (if smallFeatures layerData > 10
                     then factors @ [\<lparr>factor = ''small_features'', risk = Medium,
                            rf_description = ''Many small features - possible stringing'',
                            rf_count = None\<rparr>]
                     else factors);
          factors = (if solidInfill layerData > 0.8
                     then factors @ [\<lparr>factor = ''solid_infill'', risk = Low,
                            rf_description = ''Solid infill provides structural stability'',
                            rf_count = None\<rparr>]
                     else factors);
          factors = (if supportMaterial layerData
                     then factors @ [\<lparr>factor = ''support_present'', risk = Low,
                            rf_description = ''Support material reduces failure risk'',
                            rf_count = None\<rparr>]
                     else factors)
      in factors)"

text \<open>
  \<open>analyzeCurrentPrint\<close> returns the detection and pushes it on the history, which keeps
  its last 50 entries. \<open>lastSnapshot\<close> is the camera input, \<open>random\<close> the value drawn by
  \<open>analyzeVisualPatterns\<close>, \<open>now\<close> the clock.
\<close>

definition analyzeCurrentPrint ::
    "int \<Rightarrow> real \<Rightarrow> int option \<Rightarrow> sensor_windows \<Rightarrow> gcode_analysis \<Rightarrow> int \<Rightarrow> detector
       \<Rightarrow> detection \<times> detector" where
  "analyzeCurrentPrint now random lastSnapshot sensorData gcodeAnalysis currentLayer this =
     (let riskScore = calculateRiskScore gcodeAnalysis currentLayer;
          sensorAlerts = analyzeSensorPatterns sensorData;
          visualAnalysis = analyzeVisualPatterns lastSnapshot random;
          detection = \<lparr>d_timestamp = now, d_layer = currentLayer, d_riskScore = riskScore,
             d_confidence = calculateConfidence this riskScore sensorAlerts visualAnalysis,
             d_alerts = sensorAlerts,
             riskFactors = identifyRiskFactors gcodeAnalysis currentLayer,
             d_recommendation = generateRecommendation riskScore sensorAlerts\<rparr>;
          history = detectionHistory this @ [detection];
          history = (if length history > 50 then slice_last 50 history else history)
      in (detection, this\<lparr>detectionHistory := history\<rparr>))"

text \<open>\<open>reportFeedback\<close> returns nothing; its effect is the new detector state.\<close>

definition reportFeedback :: "bool \<Rightarrow> detector \<Rightarrow> detector" where
  "reportFeedback wasActualSpaghetti this =
     (if wasActualSpaghetti then this\<lparr>truePositives := truePositives this + 1\<rparr>
      else this\<lparr>falsePositives := falsePositives this + 1\<rparr>)"

record detection_stats =
  totalDetections :: nat
  accuracy :: real
  ds_truePositives :: nat
  ds_falsePositives :: nat
  recentDetections :: "detection list"

definition getDetectionStats :: "detector \<Rightarrow> detection_stats" where
  "getDetectionStats this =
     \<lparr>totalDetections = length (detectionHistory this),
      accuracy = getHistoricalAccuracy this,
      ds_truePositives = truePositives this,
      ds_falsePositives = falsePositives this,
      recentDetections = slice_last 10 (detectionHistory this)\<rparr>"

section \<open>QualityAnalyzer (quality.js)\<close>

text \<open>
  An issue is its message; the one message that interpolates a number
  (\<open>Unusual temperature: <avg>\<close>) keeps the number instead of the text \<open>toFixed\<close> renders.
\<close>

datatype issue = Issue string | UnusualTemperature real

text \<open>
  The result of each analysis: \<open>score\<close> holds the field the source calls \<open>stability\<close> or
  \<open>score\<close>, with \<open>None\<close> for \<open>NaN\<close>.
\<close>

record analysis =
  issues :: "issue list"
  recommendations :: "string list"
  score :: "real option"

text \<open>\<open>data.reduce((a, b) => a + b, 0) / data.length\<close>: \<open>0 / 0\<close> is \<open>NaN\<close>.\<close>

definition js_mean :: "real list \<Rightarrow> real option" where
  "js_mean data = (if length data = 0 then None else Some (sum_list data / real (length data)))"

text \<open>\<open>x || d\<close> on a number: \<open>d\<close> when \<open>x\<close> is 0 or \<open>NaN\<close>.\<close>

definition js_or :: "real option \<Rightarrow> real \<Rightarrow> real" where
  "js_or x d = (case x of None \<Rightarrow> d | Some v \<Rightarrow> if v = 0 then d else v)"

definition analyzeTemperatureProfile :: "real list \<Rightarrow> analysis" where
  "analyzeTemperatureProfile temperatureData =
     (let issues = []; recommendations = [];
          tempVariation = calculateVariation temperatureData;
          (issues, recommendations) =
            (if tempVariation > 5
             then (issues @ [Issue ''Temperature fluctuation detected''],
                   recommendations @ [''Check thermal insulation and PID tuning''])
             else (issues, recommendations));
          avgTemp = js_mean temperatureData;
          (issues, recommendations) =
            (case avgTemp of
               None \<Rightarrow> (issues, recommendations)
             | Some avg \<Rightarrow>
                 if avg < 180 \<or> avg > 250
                 then (issues @ [UnusualTemperature avg],
                       recommendations @ [''Verify material temperature requirements''])
                 else (issues, recommendations))
      in \<lparr>issues = issues, recommendations = recommendations,
          score = Some (100 - tempVariation * 10)\<rparr>)"

text \<open>The loop of \<open>detectVibrationPatterns\<close>: the number of neighbours more than 10 apart.\<close>

fun periodicCount :: "real list \<Rightarrow> nat" where
  "periodicCount (a # b # data) = (if \<bar>b - a\<bar> > 10 then 1 else 0) + periodicCount (b # data)"
| "periodicCount _ = 0"

definition detectVibrationPatterns :: "real list \<Rightarrow> bool" where
  "detectVibrationPatterns data = (real (periodicCount data) > real (length data) * 0.3)"

definition analyzeVibrationData :: "real list \<Rightarrow> analysis" where
  "analyzeVibrationData vibrationData =
     (let issues = []; recommendations = [];
          avgVibration = js_mean vibrationData;
          (issues, recommendations) =
            (case avgVibration of
               None \<Rightarrow> (issues, recommendations)
             | Some avg \<Rightarrow>
                 if avg > 50
                 then (issues @ [Issue ''Excessive printer vibration detected''],
                       recommendations @ [''Check belt tension and frame stability''])
                 else (issues, recommendations));
          periodic = detectVibrationPatterns vibrationData;
          (issues, recommendations) =
            (if periodic
             then (issues @ [Issue ''Periodic vibration pattern detected''],
                   recommendations @ [''Check for loose pulleys or worn bearings''])
             else (issues, recommendations))
      in \<lparr>issues = issues, recommendations = recommendations,
          score = (case avgVibration of None \<Rightarrow> None | Some avg \<Rightarrow> Some (max 0 (100 - avg)))\<rparr>)"

text \<open>
  A line of G-code is represented by what \<open>extractLayerHeights\<close> reads from it: the number
  that \<open>parseFloat\<close> returns for the text matched after the first \<open>Z\<close>, \<open>None\<close> when the
  line has no match or the text is not a number (\<open>NaN > currentZ\<close> is false).
\<close>

type_synonym gcode_line = "real option"

definition extractLayerHeights :: "gcode_line list \<Rightarrow> real list" where
  "extractLayerHeights gCodeData =
     (let (heights, currentZ) =
            foldl (\<lambda>(heights, currentZ) line.
                     case line of
                       None \<Rightarrow> (heights, currentZ)
                     | Some newZ \<Rightarrow>
                         if newZ > currentZ then (heights @ [newZ - currentZ], newZ)
                         else (heights, currentZ))
                  ([], 0) gCodeData
      in if length heights > 0 then heights else [0.2])"

text \<open>The sensor data of the analyzer; every field may be absent.\<close>

record analyzer_sensor_data =
  as_vibration :: "real list option"
  as_filamentFlow :: "real list option"
  as_temperature :: "real option"
  as_humidity :: "real option"

definition analyzeLayerQuality :: "gcode_line list \<Rightarrow> analyzer_sensor_data \<Rightarrow> analysis" where
  "analyzeLayerQuality gCodeData sensorData =
     (let issues = []; recommendations = []; layerScore = 100;
          layerHeights = extractLayerHeights gCodeData;
          heightVariation = calculateVariation layerHeights;
          (issues, recommendations, layerScore) =
            (if heightVariation > 0.05
             then (issues @ [Issue ''Inconsistent layer heights detected''],
                   recommendations @ [''Calibrate Z-axis steps/mm and check bed leveling''],
                   layerScore - 20)
             else (issues, recommendations, layerScore));
          (issues, recommendations, layerScore) =
            (case as_filamentFlow sensorData of
               None \<Rightarrow> (issues, recommendations, layerScore)
             | Some flow \<Rightarrow>
                 let flowVariation = calculateVariation flow
                 in if flowVariation > 10
                    then (issues @ [Issue ''Inconsistent filament flow detected''],
                          recommendations @ [''Check extruder gear tension and hotend temperature''],
                          layerScore - 15)
                    else (issues, recommendations, layerScore))
      in \<lparr>issues = issues, recommendations = recommendations,
          score = Some (max 0 layerScore)\<rparr>)"

text \<open>
  The argument of \<open>detectCommonIssues\<close>, read field by field as the code reads it
  (\<open>allData.temperature?.avg\<close>, \<open>allData.filamentFlow?.avg\<close>, ...); a comparison with an
  absent field is false.
\<close>

record all_data =
  ad_temperature_avg :: "real option"
  ad_bedTemp :: "real option"
  ad_filamentFlow_avg :: "real option"
  ad_humidity :: "real option"
  ad_ambientTemp :: "real option"

definition js_lt :: "real option \<Rightarrow> real \<Rightarrow> bool" where
  "js_lt x c = (case x of None \<Rightarrow> False | Some v \<Rightarrow> v < c)"

definition js_gt :: "real option \<Rightarrow> real \<Rightarrow> bool" where
  "js_gt x c = (case x of None \<Rightarrow> False | Some v \<Rightarrow> v > c)"

definition detectCommonIssues :: "all_data \<Rightarrow> issue list \<times> string list" where
  "detectCommonIssues allData =
     (let issues = []; recommendations = [];
          (issues, recommendations) =
            (if js_lt (ad_temperature_avg allData) 200 \<and> js_lt (ad_filamentFlow_avg allData) 400
             then (issues @ [Issue ''Possible under-extrusion''],
                   recommendations @ [''Increase temperature or flow rate''])
             else (issues, recommendations));
          (issues, recommendations) =
            (if js_gt (ad_filamentFlow_avg allData) 800
             then (issues @ [Issue ''Possible over-extrusion''],
                   recommendations @ [''Reduce flow rate or increase print speed''])
             else (issues, recommendations));
          (issues, recommendations) =
            (if js_lt (ad_bedTemp allData) 50 \<and> js_lt (ad_ambientTemp allData) 20
             then (issues @ [Issue ''High warping risk detected''],
                   recommendations @ [''Increase bed temperature and consider enclosure''])
             else (issues, recommendations));
          (issues, recommendations) =
            (if js_gt (ad_humidity allData) 60
             then (issues @ [Issue ''High humidity may cause stringing''],
                   recommendations @ [''Store filament in dry environment''])
             else (issues, recommendations))
      in (issues, recommendations))"

definition getQualityGrade :: "real \<Rightarrow> string" where
  "getQualityGrade score' =
     (if score' \<ge> 90 then ''Excellent''
      else if score' \<ge> 80 then ''Good''
      else if score' \<ge> 70 then ''Fair''
      else if score' \<ge> 60 then ''Poor''
      else ''Critical'')"

record analyzer_printer_data =
  ap_temperatures :: "real list option"
  ap_temperature_avg :: "real option"
  ap_bedTemp :: "real option"

record metrics =
  temperatureStability :: real
  vibrationLevel :: real
  layerQuality :: real

record quality_report =
  qr_timestamp :: int
  overallScore :: int
  grade :: string
  qr_issues :: "issue list"
  qr_recommendations :: "string list"
  qr_metrics :: metrics

text \<open>
  \<open>generateQualityReport\<close>. \<open>sensorData.filamentFlow\<close> is an array, which has no \<open>avg\<close>
  property, so \<open>detectCommonIssues\<close> receives no flow average.
\<close>

definition generateQualityReport ::
    "int \<Rightarrow> analyzer_printer_data \<Rightarrow> analyzer_sensor_data \<Rightarrow> gcode_line list \<Rightarrow> quality_report" where
  "generateQualityReport now printerData sensorData gCodeData =
     (let tempAnalysis = analyzeTemperatureProfile
                           (case ap_temperatures printerData of Some t \<Rightarrow> t | None \<Rightarrow> []);
          vibAnalysis = analyzeVibrationData
                          (case as_vibration sensorData of Some v \<Rightarrow> v | None \<Rightarrow> []);
          layerAnalysis = analyzeLayerQuality gCodeData sensorData;
          commonIssues = detectCommonIssues
            \<lparr>ad_temperature_avg = ap_temperature_avg printerData,
             ad_bedTemp = ap_bedTemp printerData,
             ad_filamentFlow_avg = None,
             ad_humidity = as_humidity sensorData,
             ad_ambientTemp = as_temperature sensorData\<rparr>;
          allIssues = issues tempAnalysis @ issues vibAnalysis @ issues layerAnalysis
                      @ fst commonIssues;
          allRecommendations = recommendations tempAnalysis @ recommendations vibAnalysis
                      @ recommendations layerAnalysis @ snd commonIssues;
          scores = [js_or (score tempAnalysis) 100, js_or (score vibAnalysis) 100,
                    js_or (score layerAnalysis) 100];
          overallScore = sum_list scores / real (length scores)
      in \<lparr>qr_timestamp = now,
          overallScore = js_round overallScore,
          grade = getQualityGrade overallScore,
          qr_issues = allIssues,
          qr_recommendations = allRecommendations,
          qr_metrics = \<lparr>temperatureStability = js_or (score tempAnalysis) 0,
                        vibrationLevel = js_or (score vibAnalysis) 0,
                        layerQuality = js_or (score layerAnalysis) 0\<rparr>\<rparr>)"

section \<open>PrintMonitor (monitor.js)\<close>

record position =
  pos_x :: real
  pos_y :: real
  pos_z :: real

text \<open>An entry of \<open>dataBuffer.positions\<close>: the position with the time it was pushed.\<close>

record position_sample =
  ps_position :: position
  ps_timestamp :: int

record data_buffer =
  temperature :: "real list"
  vibration :: "real list"
  filamentFlow :: "real list"
  positions :: "position_sample list"

record print_session =
  ps_id :: int
  ps_name :: string
  startTime :: int
  endTime :: "int option"
  status :: string
  progress :: int

text \<open>
  The two shapes of the entries of \<open>this.alerts\<close>: the threshold alerts of
  \<open>checkRealTimeAlerts\<close> and the alert of \<open>runSpaghettiDetection\<close> (type
  \<open>spaghetti_risk\<close>, its message built from the layer).
\<close>

datatype monitor_alert =
    ThresholdAlert (a_type: string) (a_message: string) (a_value: real) (timestamp: int)
  | SpaghettiAlert (a_layer: int) (a_confidence: real) (a_recommendation: recommendation)
      (timestamp: int)

text \<open>
  The monitor. The analyzer has no state that changes. \<open>console_runs\<close> is the part of
  the console output the properties below observe: for every line
  \<open>Running spaghetti detection for layer N...\<close> that \<open>runSpaghettiDetection\<close> prints,
  the layer \<open>N\<close>, in order.
\<close>

record monitor =
  spaghettiDetector :: detector
  isMonitoring :: bool
  currentPrint :: "print_session option"
  dataBuffer :: data_buffer
  alerts :: "monitor_alert list"
  currentLayer :: int
  console_runs :: "int list"

definition empty_buffer :: data_buffer where
  "empty_buffer = \<lparr>temperature = [], vibration = [], filamentFlow = [], positions = []\<rparr>"

definition new_monitor :: monitor where
  "new_monitor = \<lparr>spaghettiDetector = new_detector, isMonitoring = False,
     currentPrint = None, dataBuffer = empty_buffer, alerts = [], currentLayer = 0,
     console_runs = []\<rparr>"

definition clearDataBuffer :: "monitor \<Rightarrow> monitor" where
  "clearDataBuffer this = this\<lparr>dataBuffer := empty_buffer\<rparr>"

text \<open>\<open>startMonitoring\<close> returns the id of the new session, \<open>print_<now>\<close>; the id is
  represented by the clock reading. An absent or empty name becomes \<open>Unknown\<close>.\<close>

definition startMonitoring :: "int \<Rightarrow> string option \<Rightarrow> monitor \<Rightarrow> int \<times> monitor" where
  "startMonitoring now printJob_name this =
     (let this = this\<lparr>isMonitoring := True\<rparr>;
          this = this\<lparr>currentPrint := Some
                   \<lparr>ps_id = now,
                    ps_name = (case printJob_name of
                                 None \<Rightarrow> ''Unknown''
                               | Some n \<Rightarrow> if n = [] then ''Unknown'' else n),
                    startTime = now, endTime = None, status = ''printing'', progress = 0\<rparr>\<rparr>;
          this = clearDataBuffer this;
          this = this\<lparr>alerts := []\<rparr>
      in (now, this))"

text \<open>
  The values \<open>Math.random()\<close> returns during one run of \<open>runSpaghettiDetection\<close>, one
  field for each place that draws.
\<close>

record draws =
  r_overhangs :: real
  r_bridges :: real
  r_smallFeatures :: real
  r_solidInfill :: real
  r_supportMaterial :: real
  r_visual :: real

definition runSpaghettiDetection :: "int \<Rightarrow> draws \<Rightarrow> monitor \<Rightarrow> detection \<times> monitor" where
  "runSpaghettiDetection now rnd this =
     (let this = this\<lparr>console_runs := console_runs this @ [currentLayer this]\<rparr>;
          gcodeAnalysis = [currentLayer this \<mapsto>
             \<lparr>overhangs = (if currentLayer this > 10
                           then real_of_int \<lfloor>r_overhangs rnd * 3\<rfloor> else 0),
              bridges = (if currentLayer this > 15
                         then real_of_int \<lfloor>r_bridges rnd * 2\<rfloor> else 0),
              smallFeatures = real_of_int \<lfloor>r_smallFeatures rnd * 5\<rfloor>,
              solidInfill = r_solidInfill rnd,
              supportMaterial = (r_supportMaterial rnd > 0.7)\<rparr>];
          lastSnapshot = Some now;
          (detection, detector') =
             analyzeCurrentPrint now (r_visual rnd) lastSnapshot
               \<lparr>sw_vibration = vibration (dataBuffer this),
                sw_temperature = temperature (dataBuffer this),
                sw_filamentFlow = filamentFlow (dataBuffer this)\<rparr>
               gcodeAnalysis (currentLayer this) (spaghettiDetector this);
          this = this\<lparr>spaghettiDetector := detector'\<rparr>;
          this = (if d_confidence detection > 0.7
                  then this\<lparr>alerts := alerts this @
                         [SpaghettiAlert (currentLayer this) (d_confidence detection)
                            (d_recommendation detection) now]\<rparr>
                  else this)
      in (detection, this))"

definition layerHeight :: real where
  "layerHeight = 0.2"

definition updateLayerTracking :: "int \<Rightarrow> draws \<Rightarrow> real \<Rightarrow> monitor \<Rightarrow> monitor" where
  "updateLayerTracking now rnd currentZ this =
     (let newLayer = \<lfloor>currentZ / layerHeight\<rfloor>
      in if newLayer > currentLayer this
         then let this = this\<lparr>currentLayer := newLayer\<rparr>
              in if newLayer \<le> 5 \<or> newLayer mod 20 = 0
                 then snd (runSpaghettiDetection now rnd this)
                 else this
         else this)"

record temperatures =
  hotend :: real
  bed :: real

record printer_data =
  pd_position :: "position option"
  pd_temperature :: "temperatures option"

definition estimateProgress :: "printer_data \<Rightarrow> monitor \<Rightarrow> monitor" where
  "estimateProgress printerData this =
     (case (currentPrint this, pd_position printerData) of
        (Some print, Some pos) \<Rightarrow>
          let maxZ = 200;
              currentZ = pos_z pos;
              progress' = min 100 ((currentZ / maxZ) * 100)
          in this\<lparr>currentPrint := Some (print\<lparr>progress := js_round progress'\<rparr>)\<rparr>
      | _ \<Rightarrow> this)"

text \<open>
  \<open>updatePrinterData\<close> can run the detection twice, once from the layer tracking and
  once from its own check, so it takes two sets of draws.
\<close>

definition updatePrinterData :: "int \<Rightarrow> draws \<Rightarrow> draws \<Rightarrow> printer_data \<Rightarrow> monitor \<Rightarrow> monitor" where
  "updatePrinterData now rnd1 rnd2 printerData this =
     (if \<not> isMonitoring this then this
      else
        let this = (case pd_position printerData of
                      None \<Rightarrow> this
                    | Some pos \<Rightarrow>
                        let this = this\<lparr>dataBuffer := (dataBuffer this)
                                     \<lparr>positions := positions (dataBuffer this) @
                                        [\<lparr>ps_position = pos, ps_timestamp = now\<rparr>]\<rparr>\<rparr>
                        in updateLayerTracking now rnd1 (pos_z pos) this);
            this = (case pd_temperature printerData of
                      None \<Rightarrow> this
                    | Some t \<Rightarrow> this\<lparr>dataBuffer := (dataBuffer this)
                                  \<lparr>temperature := temperature (dataBuffer this) @ [hotend t]\<rparr>\<rparr>);
            this = estimateProgress printerData this
        in if currentLayer this > 0 \<and> currentLayer this mod 10 = 0
           then snd (runSpaghettiDetection now rnd2 this)
           else this)"

text \<open>The argument of \<open>updateSensorData\<close>; a field is \<open>None\<close> when it is \<open>undefined\<close>.\<close>

record sensor_data =
  sd_temperature :: "real option"
  sd_vibration :: "real option"
  sd_filamentFlow :: "real option"

text \<open>
  The one place of the monitor that can throw: \<open>this.currentPrint.status\<close> is read when
  the temperature is below 180, a \<open>TypeError\<close> when \<open>currentPrint\<close> is \<open>null\<close>.
\<close>

datatype js_error = TypeError

definition one_hour :: int where
  "one_hour = 60 * 60 * 1000"

definition checkRealTimeAlerts :: "int \<Rightarrow> sensor_data \<Rightarrow> monitor \<Rightarrow> js_error + monitor" where
  "checkRealTimeAlerts now data this =
     (let new_alerts = [];
          new_alerts =
            (if js_gt (sd_temperature data) 250
             then new_alerts @ [ThresholdAlert ''warning'' ''High temperature detected''
                                  (the (sd_temperature data)) now]
             else new_alerts)
      in if js_lt (sd_temperature data) 180 \<and> currentPrint this = None then Inl TypeError
         else
           let new_alerts =
                 (if js_lt (sd_temperature data) 180
                     \<and> status (the (currentPrint this)) = ''printing''
                  then new_alerts @ [ThresholdAlert ''error'' ''Temperature drop detected''
                                       (the (sd_temperature data)) now]
                  else new_alerts);
               new_alerts =
                 (if js_gt (sd_vibration data) 80
                  then new_alerts @ [ThresholdAlert ''warning'' ''Excessive vibration detected''
                                       (the (sd_vibration data)) now]
                  else new_alerts);
               new_alerts =
                 (if js_lt (sd_filamentFlow data) 100
                  then new_alerts @ [ThresholdAlert ''error'' ''Possible filament jam or runout''
                                       (the (sd_filamentFlow data)) now]
                  else new_alerts);
               this = this\<lparr>alerts := alerts this @ new_alerts\<rparr>;
               oneHourAgo = now - one_hour
           in Inr (this\<lparr>alerts := filter (\<lambda>alert. timestamp alert > oneHourAgo) (alerts this)\<rparr>))"

text \<open>The loop over the keys of \<open>dataBuffer\<close> that keeps the last 100 readings of each.\<close>

definition trim :: "'a list \<Rightarrow> 'a list" where
  "trim xs = (if length xs > 100 then slice_last 100 xs else xs)"

definition updateSensorData :: "int \<Rightarrow> sensor_data \<Rightarrow> monitor \<Rightarrow> js_error + monitor" where
  "updateSensorData now sensorData this =
     (if \<not> isMonitoring this then Inr this
      else
        let buf = dataBuffer this;
            buf = (case sd_temperature sensorData of
                     None \<Rightarrow> buf | Some v \<Rightarrow> buf\<lparr>temperature := temperature buf @ [v]\<rparr>);
            buf = (case sd_vibration sensorData of
                     None \<Rightarrow> buf | Some v \<Rightarrow> buf\<lparr>vibration := vibration buf @ [v]\<rparr>);
            buf = (case sd_filamentFlow sensorData of
                     None \<Rightarrow> buf | Some v \<Rightarrow> buf\<lparr>filamentFlow := filamentFlow buf @ [v]\<rparr>);
            buf = \<lparr>temperature = trim (temperature buf), vibration = trim (vibration buf),
                   filamentFlow = trim (filamentFlow buf), positions = trim (positions buf)\<rparr>
        in checkRealTimeAlerts now sensorData (this\<lparr>dataBuffer := buf\<rparr>))"

text \<open>\<open>getCurrentStatus\<close>: \<open>{monitoring: false}\<close>, or the status of the session.\<close>

record data_points =
  dp_temperature :: nat
  dp_vibration :: nat
  dp_filamentFlow :: nat

datatype current_status =
    NotMonitoring
  | Monitoring (st_print: print_session) (st_runtime: int) (st_alerts: "monitor_alert list")
      (st_dataPoints: data_points)

definition getCurrentStatus :: "int \<Rightarrow> monitor \<Rightarrow> current_status" where
  "getCurrentStatus now this =
     (if \<not> isMonitoring this \<or> currentPrint this = None then NotMonitoring
      else
        let runtime = now - startTime (the (currentPrint this));
            recentAlerts = slice_last 5 (alerts this)
        in Monitoring (the (currentPrint this)) runtime recentAlerts
             \<lparr>dp_temperature = length (temperature (dataBuffer this)),
              dp_vibration = length (vibration (dataBuffer this)),
              dp_filamentFlow = length (filamentFlow (dataBuffer this))\<rparr>)"

definition getAverageValue :: "real list \<Rightarrow> real" where
  "getAverageValue data =
     (if length data = 0 then 0 else sum_list data / real (length data))"

record final_report =
  fr_report :: quality_report
  fr_print :: print_session
  totalRuntime :: "int option"
  totalAlerts :: nat
  dataCollected :: data_points

definition generateFinalReport :: "int \<Rightarrow> monitor \<Rightarrow> final_report option" where
  "generateFinalReport now this =
     (case currentPrint this of
        None \<Rightarrow> None
      | Some print \<Rightarrow>
          let finalReport = generateQualityReport now
                \<lparr>ap_temperatures = Some (temperature (dataBuffer this)),
                 ap_temperature_avg = None, ap_bedTemp = None\<rparr>
                \<lparr>as_vibration = Some (vibration (dataBuffer this)),
                 as_filamentFlow = Some (filamentFlow (dataBuffer this)),
                 as_temperature = Some (getAverageValue (temperature (dataBuffer this))),
                 as_humidity = Some 50\<rparr>
                []
          in Some \<lparr>fr_report = finalReport, fr_print = print,
                   totalRuntime = (case endTime print of
                                     None \<Rightarrow> None
                                   | Some e \<Rightarrow> Some (e - startTime print)),
                   totalAlerts = length (alerts this),
                   dataCollected =
                     \<lparr>dp_temperature = length (temperature (dataBuffer this)),
                      dp_vibration = length (vibration (dataBuffer this)),
                      dp_filamentFlow = length (filamentFlow (dataBuffer this))\<rparr>\<rparr>)"

definition stopMonitoring :: "int \<Rightarrow> monitor \<Rightarrow> final_report option \<times> monitor" where
  "stopMonitoring now this =
     (let this = (case currentPrint this of
                    None \<Rightarrow> this
                  | Some print \<Rightarrow>
                      this\<lparr>currentPrint := Some (print\<lparr>endTime := Some now,
                                                        status := ''completed''\<rparr>)\<rparr>);
          this = this\<lparr>isMonitoring := False\<rparr>
      in (generateFinalReport now this, this))"

definition reportSpaghettiOutcome :: "bool \<Rightarrow> monitor \<Rightarrow> monitor" where
  "reportSpaghettiOutcome wasActualSpaghetti this =
     this\<lparr>spaghettiDetector := reportFeedback wasActualSpaghetti (spaghettiDetector this)\<rparr>"

text \<open>
  The calls that change the monitor, each with the inputs it consumes, and the monitor
  after a sequence of them. A call that throws ends the run with the error.
\<close>

datatype call =
    StartMonitoring int "string option"
  | StopMonitoring int
  | UpdateSensorData int sensor_data
  | UpdatePrinterData int draws draws printer_data
  | ReportSpaghettiOutcome bool

fun step :: "call \<Rightarrow> monitor \<Rightarrow> js_error + monitor" where
  "step (StartMonitoring now n) this = Inr (snd (startMonitoring now n this))"
| "step (StopMonitoring now) this = Inr (snd (stopMonitoring now this))"
| "step (UpdateSensorData now d) this = updateSensorData now d this"
| "step (UpdatePrinterData now rnd1 rnd2 d) this = Inr (updatePrinterData now rnd1 rnd2 d this)"
| "step (ReportSpaghettiOutcome b) this = Inr (reportSpaghettiOutcome b this)"

fun run :: "call list \<Rightarrow> monitor \<Rightarrow> js_error + monitor" where
  "run [] this = Inr this"
| "run (c # cs) this = (case step c this of Inl e \<Rightarrow> Inl e | Inr this' \<Rightarrow> run cs this')"

text \<open>
  What relates the two session fields in every state the calls can reach: while
  monitoring, there is a current print.
\<close>

definition session_ok :: "monitor \<Rightarrow> bool" where
  "session_ok this = (isMonitoring this \<longrightarrow> currentPrint this \<noteq> None)"

text \<open>
  A printer update whose position, if it has one, does not lie above layer \<open>L\<close>: the
  layer the code derives from it, \<open>floor (z / layerHeight)\<close>, is at most \<open>L\<close>.
\<close>

definition within_layer :: "int \<Rightarrow> call \<Rightarrow> bool" where
  "within_layer L c =
     (case c of
        UpdatePrinterData now rnd1 rnd2 pd \<Rightarrow>
          (case pd_position pd of
             None \<Rightarrow> True
           | Some pos \<Rightarrow> \<lfloor>pos_z pos / layerHeight\<rfloor> \<le> L)
      | _ \<Rightarrow> False)"

text \<open>Inputs of the examples: draws that are all 0 and a position at the origin.\<close>

definition zero_draws :: draws where
  "zero_draws = \<lparr>r_overhangs = 0, r_bridges = 0, r_smallFeatures = 0, r_solidInfill = 0,
     r_supportMaterial = 0, r_visual = 0\<rparr>"

definition at_origin :: printer_data where
  "at_origin = \<lparr>pd_position = Some \<lparr>pos_x = 0, pos_y = 0, pos_z = 0\<rparr>,
     pd_temperature = None\<rparr>"

definition hot :: sensor_data where
  "hot = \<lparr>sd_temperature = Some 300, sd_vibration = None, sd_filamentFlow = None\<rparr>"

definition high_temperature :: "int \<Rightarrow> monitor_alert" where
  "high_temperature t = ThresholdAlert ''warning'' ''High temperature detected'' 300 t"

text \<open>
  The monitor after a session start at time 0 and seven sensor updates with a
  temperature of 300, at 0, 2, 3, 4, 5, 6 and 7 minutes: seven alerts are stored.
\<close>

definition seven_alerts :: monitor where
  "seven_alerts = \<lparr>spaghettiDetector = new_detector, isMonitoring = True,
     currentPrint = Some \<lparr>ps_id = 0, ps_name = ''Unknown'', startTime = 0, endTime = None,
                            status = ''printing'', progress = 0\<rparr>,
     dataBuffer = \<lparr>temperature = [300, 300, 300, 300, 300, 300, 300], vibration = [],
                    filamentFlow = [], positions = []\<rparr>,
     alerts = [high_temperature 0, high_temperature 120000, high_temperature 180000,
               high_temperature 240000, high_temperature 300000, high_temperature 360000,
               high_temperature 420000],
     currentLayer = 0, console_runs = []\<rparr>"

definition no_samples :: sensor_windows where
  "no_samples = \<lparr>sw_vibration = [], sw_temperature = [], sw_filamentFlow = []\<rparr>"

definition one_overhang :: layer_data where
  "one_overhang = \<lparr>overhangs = 1, bridges = 0, smallFeatures = 0, solidInfill = 0,
     supportMaterial = False\<rparr>"

text \<open>A draw above 0.9, for which \<open>analyzeVisualPatterns\<close> reports both patterns.\<close>

definition high_draw :: real where
  "high_draw = 0.95"

section \<open>Properties of the detector\<close>

lemmas weights = w_overhangs_def w_bridges_def w_smallFeatures_def w_firstLayers_def
  w_solidInfill_def w_supported_def

lemma calculateRiskScore_bounds:
  "0 \<le> calculateRiskScore g l \<and> calculateRiskScore g l \<le> 1"
  unfolding calculateRiskScore_def Let_def weights
  by (auto simp: min_def split: if_splits
      intro!: divide_nonneg_pos add_nonneg_nonneg mult_nonneg_nonneg)

lemma getHistoricalAccuracy_bounds:
  "0 \<le> getHistoricalAccuracy this \<and> getHistoricalAccuracy this \<le> 1"
  by (auto simp: getHistoricalAccuracy_def Let_def divide_le_eq)

lemma calculateConfidence_bounds:
  assumes "0 \<le> r" and "0 \<le> va_confidence v"
  shows "0 \<le> calculateConfidence this r as v \<and> calculateConfidence this r as v \<le> 1"
  using assms getHistoricalAccuracy_bounds [of this]
  unfolding calculateConfidence_def Let_def
  by (auto intro!: mult_nonneg_nonneg add_nonneg_nonneg)

text \<open>
  Claim C1. For every structural snapshot, every list of sensor alerts, every external
  visual confidence in [0,1] and every pair of feedback counters (non-negative by their
  type), the risk score of \<open>calculateRiskScore\<close> lies in [0,1], and so does the confidence
  that \<open>calculateConfidence\<close> fuses from it. The guards \<open>> 0\<close> of the source make the
  bounds on the snapshot's counts unnecessary: the statement holds for every snapshot.
\<close>

theorem scores_in_unit_interval:
  assumes "0 \<le> va_confidence v \<and> va_confidence v \<le> 1"
  shows "0 \<le> calculateRiskScore g layer
       \<and> calculateRiskScore g layer \<le> 1
       \<and> 0 \<le> calculateConfidence this (calculateRiskScore g layer)
                 as' v
       \<and> calculateConfidence this (calculateRiskScore g layer)
                 as' v \<le> 1"
proof -
  have r: "0 \<le> calculateRiskScore g layer
         \<and> calculateRiskScore g layer \<le> 1"
    by (rule calculateRiskScore_bounds)
  from r assms calculateConfidence_bounds
    [of "calculateRiskScore g layer" v this as']
  show ?thesis by simp
qed

theorem scores_in_unit_interval_witness:
  "(0 \<le> va_confidence \<lparr>va_confidence = 0.75, patterns = []\<rparr>
      \<and> va_confidence \<lparr>va_confidence = 0.75, patterns = []\<rparr> \<le> 1)
   \<and> 0 \<le> calculateConfidence \<lparr>detectionHistory = [], falsePositives = 1, truePositives = 3\<rparr>
         (calculateRiskScore
            [12 \<mapsto> \<lparr>overhangs = 3, bridges = 1, smallFeatures = 4, solidInfill = 0.9,
                     supportMaterial = True\<rparr>] 12)
         [low_flow, erratic_flow] \<lparr>va_confidence = 0.75, patterns = []\<rparr>
   \<and> calculateConfidence \<lparr>detectionHistory = [], falsePositives = 1, truePositives = 3\<rparr>
         (calculateRiskScore
            [12 \<mapsto> \<lparr>overhangs = 3, bridges = 1, smallFeatures = 4, solidInfill = 0.9,
                     supportMaterial = True\<rparr>] 12)
         [low_flow, erratic_flow] \<lparr>va_confidence = 0.75, patterns = []\<rparr> \<le> 1"
  using scores_in_unit_interval
    [of "\<lparr>va_confidence = 0.75, patterns = []\<rparr>"
        "[12 \<mapsto> \<lparr>overhangs = 3, bridges = 1, smallFeatures = 4, solidInfill = 0.9,
                 supportMaterial = True\<rparr>]" 12
        "\<lparr>detectionHistory = [], falsePositives = 1, truePositives = 3\<rparr>"
        "[low_flow, erratic_flow]"]
  by simp

lemma sqrt_window_bound: "sqrt 28436 \<le> 367 * 0.5"
  by (rule real_le_lsqrt) (simp_all add: power2_eq_square)

lemma variation_window: "calculateVariation [450, 460, 455, 440, 30] = sqrt 28436"
  by (simp add: calculateVariation_def Let_def)

lemma scan_window:
  "analyzeSensorPatterns \<lparr>sw_vibration = [], sw_temperature = [],
      sw_filamentFlow = [450, 450, 460, 455, 440, 30]\<rparr> = []"
  using sqrt_window_bound
  by (simp add: analyzeSensorPatterns_def Let_def slice_last_def variation_window)

lemma risk_layer2_overhang:
  "calculateRiskScore [2 \<mapsto> \<lparr>overhangs = 1, bridges = 0, smallFeatures = 0, solidInfill = 0,
      supportMaterial = False\<rparr>] 2 = 104 / 185"
  by (simp add: calculateRiskScore_def Let_def weights)

lemma low_flow_iff:
  "low_flow \<in> set (analyzeSensorPatterns sd) \<longleftrightarrow>
     length (sw_filamentFlow sd) > 5 \<and>
     sum_list (slice_last 5 (sw_filamentFlow sd))
       / real (length (slice_last 5 (sw_filamentFlow sd))) < 100"
  by (auto simp: analyzeSensorPatterns_def Let_def low_flow_def vibration_anomaly_def
       temperature_instability_def erratic_flow_def)

lemma high_alert_recommendation:
  "list_ex (\<lambda>a. severity a = ''high'') as
     \<Longrightarrow> generateRecommendation r as = immediate_intervention"
  by (simp add: generateRecommendation_def)

text \<open>
  Claim C4, as stated, fails: the window [450,460,455,440,30] has mean 367, which is not
  below 100, and its variation (about 168.6) is not above half the mean, so the scan
  returns no alert for it; and at layer 2 a snapshot with one overhang has risk score
  104/185, so the recommendation is \<open>monitor_closely\<close>.
\<close>

theorem low_flow_window_counterexample:
  "d_alerts (fst (analyzeCurrentPrint 0 0 None
       \<lparr>sw_vibration = [], sw_temperature = [],
        sw_filamentFlow = [450, 450, 460, 455, 440, 30]\<rparr>
       [2 \<mapsto> \<lparr>overhangs = 1, bridges = 0, smallFeatures = 0, solidInfill = 0,
               supportMaterial = False\<rparr>] 2 new_detector)) = []
   \<and> action (d_recommendation (fst (analyzeCurrentPrint 0 0 None
       \<lparr>sw_vibration = [], sw_temperature = [],
        sw_filamentFlow = [450, 450, 460, 455, 440, 30]\<rparr>
       [2 \<mapsto> \<lparr>overhangs = 1, bridges = 0, smallFeatures = 0, solidInfill = 0,
               supportMaterial = False\<rparr>] 2 new_detector))) = ''monitor_closely''"
  by (simp add: analyzeCurrentPrint_def Let_def scan_window risk_layer2_overhang
      generateRecommendation_def monitor_closely_def)

text \<open>
  Claim C4, amended. The scan produces the \<open>low_flow\<close> alert (severity high, confidence
  0.9) exactly when the filament-flow history holds more than 5 samples and the mean of
  its last 5 is below 100; and whenever the scan produces it, the recommendation of the
  evaluation is \<open>immediate_intervention\<close>, at every layer and for every snapshot.
\<close>

theorem low_flow_alert_rule:
  "(low_flow \<in> set (analyzeSensorPatterns sd) \<longleftrightarrow>
      length (sw_filamentFlow sd) > 5 \<and> sum_list (slice_last 5 (sw_filamentFlow sd)) / 5 < 100)
   \<and> sa_type low_flow = ''low_flow'' \<and> severity low_flow = ''high''
   \<and> sa_confidence low_flow = 0.9
   \<and> (low_flow \<in> set (analyzeSensorPatterns sd) \<longrightarrow>
        action (d_recommendation (fst (analyzeCurrentPrint now random snap sd g layer this)))
          = ''immediate_intervention'')"
proof -
  have len: "length (sw_filamentFlow sd) > 5
      \<Longrightarrow> real (length (slice_last 5 (sw_filamentFlow sd))) = 5"
    by (simp add: slice_last_def)
  have iff: "low_flow \<in> set (analyzeSensorPatterns sd) \<longleftrightarrow>
      length (sw_filamentFlow sd) > 5 \<and> sum_list (slice_last 5 (sw_filamentFlow sd)) / 5 < 100"
    using len by (auto simp: low_flow_iff)
  have high: "severity low_flow = ''high''"
    by (simp add: low_flow_def)
  have "action (d_recommendation (fst (analyzeCurrentPrint now random snap sd g layer this)))
          = ''immediate_intervention''"
    if m: "low_flow \<in> set (analyzeSensorPatterns sd)"
  proof -
    from m high have "list_ex (\<lambda>a. severity a = ''high'') (analyzeSensorPatterns sd)"
      unfolding list_ex_iff by blast
    then show ?thesis
      by (simp add: analyzeCurrentPrint_def Let_def high_alert_recommendation
          immediate_intervention_def)
  qed
  with iff show ?thesis
    by (simp add: low_flow_def)
qed

theorem low_flow_alert_rule_witness:
  "low_flow \<in> set (analyzeSensorPatterns
       \<lparr>sw_vibration = [], sw_temperature = [], sw_filamentFlow = [450, 45, 46, 45, 44, 30]\<rparr>)
   \<and> action (d_recommendation (fst (analyzeCurrentPrint 0 0 None
       \<lparr>sw_vibration = [], sw_temperature = [], sw_filamentFlow = [450, 45, 46, 45, 44, 30]\<rparr>
       Map.empty 2 new_detector))) = ''immediate_intervention''"
  using low_flow_alert_rule
    [of "\<lparr>sw_vibration = [], sw_temperature = [], sw_filamentFlow = [450, 45, 46, 45, 44, 30]\<rparr>"
        0 0 None Map.empty 2 new_detector]
  by (simp add: slice_last_def)

lemma scan_no_samples: "analyzeSensorPatterns no_samples = []"
  by (simp add: analyzeSensorPatterns_def no_samples_def)

lemma risk_layer50_overhang: "calculateRiskScore [50 \<mapsto> one_overhang] 50 = 1 / 10"
  by (simp add: calculateRiskScore_def Let_def weights one_overhang_def)

lemma risk_layer2_one_overhang: "calculateRiskScore [2 \<mapsto> one_overhang] 2 = 104 / 185"
  by (simp add: calculateRiskScore_def Let_def weights one_overhang_def)

lemma risk_layer2_empty: "calculateRiskScore Map.empty 2 = 1"
  by (simp add: calculateRiskScore_def Let_def weights empty_layer_def)

lemma confidence_layer50:
  "calculateConfidence new_detector (1 / 10) [] (analyzeVisualPatterns (Some 0) high_draw)
     = 4 / 25"
  by (simp add: calculateConfidence_def Let_def analyzeVisualPatterns_def high_draw_def
      getHistoricalAccuracy_def new_detector_def)

lemma confidence_layer2:
  "calculateConfidence new_detector 1 [] (analyzeVisualPatterns None 0) = 8 / 25"
  by (simp add: calculateConfidence_def Let_def analyzeVisualPatterns_def getHistoricalAccuracy_def
      new_detector_def)

text \<open>
  Claim C6, as stated, fails: the policy never reads the confidence. At layer 50 with
  one overhang, no sensor alert and both visual patterns found, the risk score is 1/10
  and the confidence 4/25, so that confidence / riskScore is 1.6, above 0.8, and yet the
  recommendation is \<open>continue_monitoring\<close>. With the confidence alone in the first
  condition the claim fails as well: at layer 2 with no snapshot and no alert the
  confidence is 8/25, the risk score is 1 and the recommendation is
  \<open>immediate_intervention\<close>, not \<open>monitor_closely\<close>.
\<close>

theorem quotient_policy_counterexample:
  "d_riskScore (fst (analyzeCurrentPrint 0 high_draw (Some 0) no_samples [50 \<mapsto> one_overhang] 50
      new_detector)) = 1 / 10
   \<and> d_confidence (fst (analyzeCurrentPrint 0 high_draw (Some 0) no_samples [50 \<mapsto> one_overhang] 50
      new_detector)) = 4 / 25
   \<and> (4 / 25) / (1 / 10) > (0.8 :: real)
   \<and> action (d_recommendation (fst (analyzeCurrentPrint 0 high_draw (Some 0) no_samples
      [50 \<mapsto> one_overhang] 50 new_detector))) = ''continue_monitoring''
   \<and> d_alerts (fst (analyzeCurrentPrint 0 0 None no_samples Map.empty 2 new_detector)) = []
   \<and> d_confidence (fst (analyzeCurrentPrint 0 0 None no_samples Map.empty 2 new_detector))
       = 8 / 25
   \<and> d_riskScore (fst (analyzeCurrentPrint 0 0 None no_samples Map.empty 2 new_detector)) = 1
   \<and> action (d_recommendation (fst (analyzeCurrentPrint 0 0 None no_samples Map.empty 2
      new_detector))) = ''immediate_intervention''"
  by (simp add: analyzeCurrentPrint_def Let_def scan_no_samples risk_layer50_overhang
      risk_layer2_empty confidence_layer50 confidence_layer2 generateRecommendation_def
      continue_monitoring_def immediate_intervention_def)

text \<open>
  Claim C6, amended. For every evaluation \<open>analyzeCurrentPrint\<close> returns: if the risk
  score is above 0.8 or a high-severity sensor alert is present, the recommendation is
  \<open>immediate_intervention\<close> with urgency high; otherwise, if the risk score is above 0.5,
  it is \<open>monitor_closely\<close> with urgency medium; otherwise it is \<open>continue_monitoring\<close>
  with urgency low. The confidence does not enter the policy.
\<close>

theorem recommendation_policy:
  assumes "d = fst (analyzeCurrentPrint now random snap sd g layer this)"
  shows "if d_riskScore d > 0.8 \<or> (\<exists>a \<in> set (d_alerts d). severity a = ''high'')
         then action (d_recommendation d) = ''immediate_intervention''
              \<and> urgency (d_recommendation d) = ''high''
         else if d_riskScore d > 0.5
         then action (d_recommendation d) = ''monitor_closely''
              \<and> urgency (d_recommendation d) = ''medium''
         else action (d_recommendation d) = ''continue_monitoring''
              \<and> urgency (d_recommendation d) = ''low''"
proof -
  have d: "d_alerts d = analyzeSensorPatterns sd"
    "d_recommendation d = generateRecommendation (d_riskScore d) (d_alerts d)"
    using assms by (simp_all add: analyzeCurrentPrint_def Let_def)
  show ?thesis
  proof (cases "d_riskScore d > 0.8 \<or> (\<exists>a \<in> set (d_alerts d). severity a = ''high'')")
    case True
    then have "d_recommendation d = immediate_intervention"
      by (subst d(2)) (simp add: generateRecommendation_def list_ex_iff)
    with True show ?thesis by (simp add: immediate_intervention_def)
  next
    case False
    then have r: "d_recommendation d =
        (if d_riskScore d > 0.5 then monitor_closely else continue_monitoring)"
      by (subst d(2)) (simp add: generateRecommendation_def list_ex_iff)
    from False show ?thesis
      by (simp add: r monitor_closely_def continue_monitoring_def)
  qed
qed

theorem recommendation_policy_witness:
  "d_riskScore (fst (analyzeCurrentPrint 0 0 None no_samples [2 \<mapsto> one_overhang] 2
      new_detector)) = 104 / 185
   \<and> action (d_recommendation (fst (analyzeCurrentPrint 0 0 None no_samples
      [2 \<mapsto> one_overhang] 2 new_detector))) = ''monitor_closely''
   \<and> urgency (d_recommendation (fst (analyzeCurrentPrint 0 0 None no_samples
      [2 \<mapsto> one_overhang] 2 new_detector))) = ''medium''
   \<and> d_riskScore (fst (analyzeCurrentPrint 0 0 None no_samples [50 \<mapsto> one_overhang] 50
      new_detector)) = 1 / 10
   \<and> action (d_recommendation (fst (analyzeCurrentPrint 0 0 None no_samples
      [50 \<mapsto> one_overhang] 50 new_detector))) = ''continue_monitoring''
   \<and> urgency (d_recommendation (fst (analyzeCurrentPrint 0 0 None no_samples
      [50 \<mapsto> one_overhang] 50 new_detector))) = ''low''
   \<and> d_riskScore (fst (analyzeCurrentPrint 0 0 None no_samples Map.empty 2 new_detector)) = 1
   \<and> action (d_recommendation (fst (analyzeCurrentPrint 0 0 None no_samples Map.empty 2
      new_detector))) = ''immediate_intervention''
   \<and> urgency (d_recommendation (fst (analyzeCurrentPrint 0 0 None no_samples Map.empty 2
      new_detector))) = ''high''"
proof -
  have r: "d_riskScore (fst (analyzeCurrentPrint 0 0 None no_samples [2 \<mapsto> one_overhang] 2
      new_detector)) = 104 / 185"
    "d_riskScore (fst (analyzeCurrentPrint 0 0 None no_samples [50 \<mapsto> one_overhang] 50
      new_detector)) = 1 / 10"
    "d_riskScore (fst (analyzeCurrentPrint 0 0 None no_samples Map.empty 2 new_detector)) = 1"
    by (simp_all add: analyzeCurrentPrint_def Let_def risk_layer2_one_overhang
        risk_layer50_overhang risk_layer2_empty)
  have a: "d_alerts (fst (analyzeCurrentPrint 0 0 None no_samples [2 \<mapsto> one_overhang] 2
      new_detector)) = []"
    "d_alerts (fst (analyzeCurrentPrint 0 0 None no_samples [50 \<mapsto> one_overhang] 50
      new_detector)) = []"
    by (simp_all add: analyzeCurrentPrint_def Let_def scan_no_samples)
  from recommendation_policy [OF refl, of 0 0 None no_samples "[2 \<mapsto> one_overhang]" 2 new_detector]
    recommendation_policy [OF refl, of 0 0 None no_samples "[50 \<mapsto> one_overhang]" 50
      new_detector]
    recommendation_policy [OF refl, of 0 0 None no_samples Map.empty 2 new_detector]
  show ?thesis
    by (simp add: r a)
qed

text \<open>
  Claim C7, as stated, fails: \<open>reportFeedback\<close> has no check of the detection history and
  no result. On a detector with an empty history it increments the counter.
\<close>

theorem feedback_without_detections_counterexample:
  "detectionHistory new_detector = []
   \<and> truePositives (reportFeedback True new_detector) \<noteq> truePositives new_detector"
  by (simp add: reportFeedback_def new_detector_def)

text \<open>
  Claim C7, amended. \<open>reportFeedback\<close> always succeeds, whatever the detection history
  holds: it adds one to \<open>truePositives\<close> when the outcome was a real failure and one to
  \<open>falsePositives\<close> otherwise, and leaves the other counter and the detection history
  unchanged.
\<close>

theorem reportFeedback_effect:
  "detectionHistory (reportFeedback b this) = detectionHistory this
   \<and> truePositives (reportFeedback b this) = truePositives this + (if b then 1 else 0)
   \<and> falsePositives (reportFeedback b this) = falsePositives this + (if b then 0 else 1)"
  by (simp add: reportFeedback_def)

theorem reportFeedback_effect_witness:
  "detectionHistory (reportFeedback True new_detector) = []
   \<and> truePositives (reportFeedback True new_detector) = 1
   \<and> falsePositives (reportFeedback True new_detector) = 0"
  using reportFeedback_effect [of True new_detector]
  by (simp add: new_detector_def)

section \<open>Properties of the analyzer\<close>

lemma report_example:
  "overallScore (generateQualityReport 0
       \<lparr>ap_temperatures = Some [200], ap_temperature_avg = None, ap_bedTemp = None\<rparr>
       \<lparr>as_vibration = Some [100], as_filamentFlow = None, as_temperature = None,
        as_humidity = None\<rparr> []) = 100
   \<and> vibrationLevel (qr_metrics (generateQualityReport 0
       \<lparr>ap_temperatures = Some [200], ap_temperature_avg = None, ap_bedTemp = None\<rparr>
       \<lparr>as_vibration = Some [100], as_filamentFlow = None, as_temperature = None,
        as_humidity = None\<rparr> [])) = 0"
  by (simp add: generateQualityReport_def Let_def analyzeTemperatureProfile_def
      analyzeVibrationData_def analyzeLayerQuality_def extractLayerHeights_def
      calculateVariation_def js_mean_def js_or_def js_round_def)

lemma vibration_score_zero:
  "js_mean vib = Some avg \<Longrightarrow> avg \<ge> 100 \<Longrightarrow> score (analyzeVibrationData vib) = Some 0"
  by (simp add: analyzeVibrationData_def Let_def split: prod.split)

text \<open>
  Claim C10. In \<open>generateQualityReport\<close> a sub-score that is exactly 0 (the vibration
  score when the mean vibration is at least 100) enters the overall score as 100 and
  is reported as 0 in the metrics; for some inputs the report has overall score 100
  together with vibration level 0.
\<close>

theorem zero_subscore_counts_as_100:
  assumes "rep = generateQualityReport now pd sd g"
    and "t = score (analyzeTemperatureProfile (case ap_temperatures pd of Some t \<Rightarrow> t | None \<Rightarrow> []))"
    and "v = score (analyzeVibrationData (case as_vibration sd of Some v \<Rightarrow> v | None \<Rightarrow> []))"
    and "l = score (analyzeLayerQuality g sd)"
  shows "overallScore rep = js_round ((js_or t 100 + js_or v 100 + js_or l 100) / 3)
     \<and> qr_metrics rep = \<lparr>temperatureStability = js_or t 0, vibrationLevel = js_or v 0,
                          layerQuality = js_or l 0\<rparr>
     \<and> js_or (Some 0) 100 = 100 \<and> js_or (Some 0) 0 = 0
     \<and> (\<forall>vib avg. js_mean vib = Some avg \<and> avg \<ge> 100
            \<longrightarrow> score (analyzeVibrationData vib) = Some 0)
     \<and> (\<exists>now pd sd g. overallScore (generateQualityReport now pd sd g) = 100
            \<and> vibrationLevel (qr_metrics (generateQualityReport now pd sd g)) = 0)"
proof -
  have "overallScore rep = js_round ((js_or t 100 + js_or v 100 + js_or l 100) / 3)"
    using assms by (simp add: generateQualityReport_def Let_def add.assoc)
  moreover have "qr_metrics rep = \<lparr>temperatureStability = js_or t 0, vibrationLevel = js_or v 0,
                          layerQuality = js_or l 0\<rparr>"
    using assms by (simp add: generateQualityReport_def Let_def add.assoc)
  moreover have "js_or (Some 0) 100 = 100 \<and> js_or (Some 0) 0 = 0"
    by (simp add: js_or_def)
  moreover have "\<forall>vib avg. js_mean vib = Some avg \<and> avg \<ge> 100
            \<longrightarrow> score (analyzeVibrationData vib) = Some 0"
    using vibration_score_zero by blast
  moreover have "\<exists>now pd sd g. overallScore (generateQualityReport now pd sd g) = 100
            \<and> vibrationLevel (qr_metrics (generateQualityReport now pd sd g)) = 0"
    using report_example by blast
  ultimately show ?thesis by blast
qed

theorem zero_subscore_counts_as_100_witness:
  "overallScore (generateQualityReport 0
       \<lparr>ap_temperatures = Some [200], ap_temperature_avg = None, ap_bedTemp = None\<rparr>
       \<lparr>as_vibration = Some [100], as_filamentFlow = None, as_temperature = None,
        as_humidity = None\<rparr> []) = js_round ((100 + 100 + 100) / 3)
   \<and> vibrationLevel (qr_metrics (generateQualityReport 0
       \<lparr>ap_temperatures = Some [200], ap_temperature_avg = None, ap_bedTemp = None\<rparr>
       \<lparr>as_vibration = Some [100], as_filamentFlow = None, as_temperature = None,
        as_humidity = None\<rparr> [])) = 0
   \<and> js_mean [100] = Some 100 \<and> (100::real) \<ge> 100
   \<and> score (analyzeVibrationData [100]) = Some 0"
  using zero_subscore_counts_as_100
    [OF refl refl refl refl, of 0
        "\<lparr>ap_temperatures = Some [200], ap_temperature_avg = None, ap_bedTemp = None\<rparr>"
        "\<lparr>as_vibration = Some [100], as_filamentFlow = None, as_temperature = None,
          as_humidity = None\<rparr>" "[]"]
  by (simp add: analyzeTemperatureProfile_def analyzeVibrationData_def analyzeLayerQuality_def
      extractLayerHeights_def calculateVariation_def js_mean_def js_or_def Let_def)

section \<open>Properties of the monitor\<close>

lemma runSpaghettiDetection_frame:
  "currentLayer (snd (runSpaghettiDetection now rnd this)) = currentLayer this"
  "isMonitoring (snd (runSpaghettiDetection now rnd this)) = isMonitoring this"
  "currentPrint (snd (runSpaghettiDetection now rnd this)) = currentPrint this"
  "dataBuffer (snd (runSpaghettiDetection now rnd this)) = dataBuffer this"
  "console_runs (snd (runSpaghettiDetection now rnd this)) = console_runs this @ [currentLayer this]"
  by (simp_all add: runSpaghettiDetection_def Let_def split_beta)

lemma updateLayerTracking_layer:
  "currentLayer (updateLayerTracking now rnd z this) =
     (if \<lfloor>z / layerHeight\<rfloor> > currentLayer this then \<lfloor>z / layerHeight\<rfloor> else currentLayer this)"
  by (simp add: updateLayerTracking_def Let_def runSpaghettiDetection_frame)

lemma updateLayerTracking_frame:
  "isMonitoring (updateLayerTracking now rnd z this) = isMonitoring this"
  "currentPrint (updateLayerTracking now rnd z this) = currentPrint this"
  "dataBuffer (updateLayerTracking now rnd z this) = dataBuffer this"
  by (simp_all add: updateLayerTracking_def Let_def runSpaghettiDetection_frame)

lemma updateLayerTracking_runs:
  "console_runs (updateLayerTracking now rnd z this) = console_runs this @
     (if \<lfloor>z / layerHeight\<rfloor> > currentLayer this
         \<and> (\<lfloor>z / layerHeight\<rfloor> \<le> 5 \<or> \<lfloor>z / layerHeight\<rfloor> mod 20 = 0)
      then [\<lfloor>z / layerHeight\<rfloor>] else [])"
  by (simp add: updateLayerTracking_def Let_def runSpaghettiDetection_frame)

lemma updateLayerTracking_idle:
  "\<lfloor>z / layerHeight\<rfloor> \<le> currentLayer this \<Longrightarrow> updateLayerTracking now rnd z this = this"
  by (simp add: updateLayerTracking_def Let_def)

lemma estimateProgress_frame:
  "currentLayer (estimateProgress pd this) = currentLayer this"
  "isMonitoring (estimateProgress pd this) = isMonitoring this"
  "dataBuffer (estimateProgress pd this) = dataBuffer this"
  "console_runs (estimateProgress pd this) = console_runs this"
  "alerts (estimateProgress pd this) = alerts this"
  "(currentPrint (estimateProgress pd this) = None) = (currentPrint this = None)"
  by (simp_all add: estimateProgress_def Let_def split: option.split)

lemma updatePrinterData_layer:
  "isMonitoring this \<Longrightarrow> currentLayer (updatePrinterData now r1 r2 pd this) =
    (case pd_position pd of None \<Rightarrow> currentLayer this
     | Some pos \<Rightarrow> max (currentLayer this) \<lfloor>pos_z pos / layerHeight\<rfloor>)"
  by (simp add: updatePrinterData_def Let_def runSpaghettiDetection_frame estimateProgress_frame
      updateLayerTracking_layer max_def split: option.split)

lemma updatePrinterData_mono:
  "currentLayer this \<le> currentLayer (updatePrinterData now r1 r2 pd this)"
  by (cases "isMonitoring this")
     (simp_all add: updatePrinterData_layer split: option.split, simp add: updatePrinterData_def)

lemma updatePrinterData_inv:
  "isMonitoring (updatePrinterData now r1 r2 pd this) = isMonitoring this"
  "(currentPrint (updatePrinterData now r1 r2 pd this) = None) = (currentPrint this = None)"
  by (simp_all add: updatePrinterData_def Let_def runSpaghettiDetection_frame estimateProgress_frame
      updateLayerTracking_frame split: option.split)


lemma checkRealTimeAlerts_ok:
  assumes "currentPrint this \<noteq> None"
  shows "\<exists>this' new. checkRealTimeAlerts now sd this = Inr this'
      \<and> alerts this' = filter (\<lambda>a. timestamp a > now - one_hour) (alerts this) @ new
      \<and> (\<forall>a \<in> set new. timestamp a = now)
      \<and> currentLayer this' = currentLayer this \<and> isMonitoring this' = isMonitoring this
      \<and> currentPrint this' = currentPrint this \<and> console_runs this' = console_runs this
      \<and> dataBuffer this' = dataBuffer this \<and> spaghettiDetector this' = spaghettiDetector this"
proof -
  have pos: "now > now - one_hour" by (simp add: one_hour_def)
  show ?thesis
    using assms pos
    by (simp add: checkRealTimeAlerts_def Let_def)
qed

lemma updateSensorData_ok:
  assumes "isMonitoring this" "currentPrint this \<noteq> None"
  shows "\<exists>this' new. updateSensorData now sd this = Inr this'
      \<and> alerts this' = filter (\<lambda>a. timestamp a > now - one_hour) (alerts this) @ new
      \<and> (\<forall>a \<in> set new. timestamp a = now)
      \<and> currentLayer this' = currentLayer this \<and> isMonitoring this' = isMonitoring this
      \<and> currentPrint this' = currentPrint this \<and> console_runs this' = console_runs this"
proof -
  obtain this0 where u: "updateSensorData now sd this = checkRealTimeAlerts now sd this0"
    and f: "alerts this0 = alerts this" "currentLayer this0 = currentLayer this"
      "isMonitoring this0 = isMonitoring this" "currentPrint this0 = currentPrint this"
      "console_runs this0 = console_runs this"
    using assms(1) by (simp add: updateSensorData_def Let_def)
  from checkRealTimeAlerts_ok[of this0 now sd] assms(2) f u
  show ?thesis by auto
qed

lemma startMonitoring_frame:
  "currentLayer (snd (startMonitoring now n this)) = currentLayer this"
  "isMonitoring (snd (startMonitoring now n this))"
  "currentPrint (snd (startMonitoring now n this)) \<noteq> None"
  "dataBuffer (snd (startMonitoring now n this)) = empty_buffer"
  "alerts (snd (startMonitoring now n this)) = []"
  "console_runs (snd (startMonitoring now n this)) = console_runs this"
  by (simp_all add: startMonitoring_def Let_def clearDataBuffer_def)

lemma stopMonitoring_frame:
  "currentLayer (snd (stopMonitoring now this)) = currentLayer this"
  "\<not> isMonitoring (snd (stopMonitoring now this))"
  "console_runs (snd (stopMonitoring now this)) = console_runs this"
  by (simp_all add: stopMonitoring_def Let_def split: option.split)

lemma reportSpaghettiOutcome_frame:
  "currentLayer (reportSpaghettiOutcome b this) = currentLayer this"
  "isMonitoring (reportSpaghettiOutcome b this) = isMonitoring this"
  "currentPrint (reportSpaghettiOutcome b this) = currentPrint this"
  by (simp_all add: reportSpaghettiOutcome_def)

lemma step_ok:
  assumes "session_ok this"
  shows "\<exists>this'. step c this = Inr this' \<and> session_ok this'
           \<and> currentLayer this \<le> currentLayer this'"
proof (cases c)
  case (StartMonitoring now n)
  then show ?thesis by (simp add: session_ok_def startMonitoring_frame del: not_None_eq)
next
  case (StopMonitoring now)
  then show ?thesis by (simp add: session_ok_def stopMonitoring_frame del: not_None_eq)
next
  case (UpdateSensorData now sd)
  show ?thesis
  proof (cases "isMonitoring this")
    case True
    with assms have cp: "currentPrint this \<noteq> None" by (simp add: session_ok_def)
    from updateSensorData_ok [OF True cp, of now sd] UpdateSensorData cp
    show ?thesis by (auto simp: session_ok_def simp del: not_None_eq)
  next
    case False
    with assms UpdateSensorData show ?thesis by (simp add: updateSensorData_def)
  qed
next
  case (UpdatePrinterData now r1 r2 pd)
  with assms show ?thesis
    by (simp add: session_ok_def updatePrinterData_inv updatePrinterData_mono del: not_None_eq)
next
  case (ReportSpaghettiOutcome b)
  with assms show ?thesis by (simp add: session_ok_def reportSpaghettiOutcome_frame del: not_None_eq)
qed

lemma run_ok:
  "session_ok this \<Longrightarrow> \<exists>this'. run cs this = Inr this' \<and> session_ok this'
           \<and> currentLayer this \<le> currentLayer this'"
proof (induction cs arbitrary: this)
  case Nil
  then show ?case by simp
next
  case (Cons c cs)
  from step_ok [OF Cons.prems, of c] obtain this1 where
    s: "step c this = Inr this1" "session_ok this1" "currentLayer this \<le> currentLayer this1"
    by blast
  from Cons.IH [OF s(2)] obtain this2 where
    r: "run cs this1 = Inr this2" "session_ok this2" "currentLayer this1 \<le> currentLayer this2"
    by blast
  from s r show ?case by simp
qed

lemma run_append:
  "run (cs1 @ cs2) this = (case run cs1 this of Inl e \<Rightarrow> Inl e | Inr this' \<Rightarrow> run cs2 this')"
  by (induction cs1 arbitrary: this) (simp_all split: sum.split)

lemma session_ok_new: "session_ok new_monitor"
  by (simp add: session_ok_def new_monitor_def)

text \<open>
  Claim C8. The layer index never decreases: along every run of calls (position
  updates among them) the layer after a prefix of the run is at most the layer after
  the whole run, every run from a state the calls can reach returns, and
  \<open>updateLayerTracking\<close> advances \<open>currentLayer\<close> exactly when
  \<open>floor (z / layerHeight)\<close> is strictly greater than it, leaving it unchanged otherwise,
  also when \<open>z\<close> has decreased.
\<close>

theorem layer_never_decreases:
  assumes "session_ok this"
  shows "(\<exists>this1 this2. run cs1 this = Inr this1 \<and> run (cs1 @ cs2) this = Inr this2
           \<and> currentLayer this \<le> currentLayer this1 \<and> currentLayer this1 \<le> currentLayer this2)
     \<and> currentLayer (updateLayerTracking now rnd z this) =
          (if \<lfloor>z / layerHeight\<rfloor> > currentLayer this then \<lfloor>z / layerHeight\<rfloor>
           else currentLayer this)
     \<and> currentLayer this \<le> currentLayer (updateLayerTracking now rnd z this)"
proof -
  from run_ok [OF assms, of cs1] obtain this1 where
    a: "run cs1 this = Inr this1" "session_ok this1" "currentLayer this \<le> currentLayer this1"
    by blast
  from run_ok [OF a(2), of cs2] obtain this2 where
    b: "run cs2 this1 = Inr this2" "currentLayer this1 \<le> currentLayer this2"
    by blast
  from a b have "run (cs1 @ cs2) this = Inr this2" by (simp add: run_append)
  with a b show ?thesis by (simp add: updateLayerTracking_layer)
qed

theorem layer_never_decreases_witness:
  "session_ok new_monitor
   \<and> (\<exists>this1 this2.
         run [StartMonitoring 0 None] new_monitor = Inr this1
         \<and> run ([StartMonitoring 0 None] @ [StopMonitoring 5]) new_monitor = Inr this2
         \<and> currentLayer new_monitor \<le> currentLayer this1
         \<and> currentLayer this1 \<le> currentLayer this2)
   \<and> currentLayer (updateLayerTracking 0 zero_draws (-1) new_monitor) = 0"
  using layer_never_decreases [OF session_ok_new, of "[StartMonitoring 0 None]"
      "[StopMonitoring 5]" 0 zero_draws "-1"]
  by (simp add: new_monitor_def layerHeight_def session_ok_def)

lemma updatePrinterData_runs:
  assumes "isMonitoring this"
  shows "console_runs (updatePrinterData now r1 r2 pd this) =
     console_runs this
     @ (case pd_position pd of
          None \<Rightarrow> []
        | Some pos \<Rightarrow>
            if \<lfloor>pos_z pos / layerHeight\<rfloor> > currentLayer this
               \<and> (\<lfloor>pos_z pos / layerHeight\<rfloor> \<le> 5 \<or> \<lfloor>pos_z pos / layerHeight\<rfloor> mod 20 = 0)
            then [\<lfloor>pos_z pos / layerHeight\<rfloor>] else [])
     @ (if currentLayer (updatePrinterData now r1 r2 pd this) > 0
           \<and> currentLayer (updatePrinterData now r1 r2 pd this) mod 10 = 0
        then [currentLayer (updatePrinterData now r1 r2 pd this)] else [])"
proof (cases "pd_position pd")
  case None
  with assms show ?thesis
    by (simp add: updatePrinterData_def Let_def runSpaghettiDetection_frame estimateProgress_frame
        split: option.split)
next
  case (Some pos)
  with assms show ?thesis
    by (simp add: updatePrinterData_def Let_def runSpaghettiDetection_frame estimateProgress_frame
        updateLayerTracking_layer updateLayerTracking_runs split: option.split)
qed

lemma updatePrinterData_positions:
  assumes "isMonitoring this"
  shows "positions (dataBuffer (updatePrinterData now r1 r2 pd this)) =
     positions (dataBuffer this)
     @ (case pd_position pd of None \<Rightarrow> []
        | Some pos \<Rightarrow> [\<lparr>ps_position = pos, ps_timestamp = now\<rparr>])"
  using assms
  by (simp add: updatePrinterData_def Let_def runSpaghettiDetection_frame estimateProgress_frame
        updateLayerTracking_frame split: option.split)

lemma positions_grow:
  assumes "isMonitoring this" "pd_position pd = Some pos"
  shows "\<exists>this'. run (replicate n (UpdatePrinterData now r1 r2 pd)) this = Inr this'
     \<and> isMonitoring this'
     \<and> positions (dataBuffer this') =
         positions (dataBuffer this) @ replicate n \<lparr>ps_position = pos, ps_timestamp = now\<rparr>"
  using assms
proof (induction n arbitrary: this)
  case 0
  then show ?case by simp
next
  case (Suc n)
  let ?s = "updatePrinterData now r1 r2 pd this"
  have m: "isMonitoring ?s" using Suc.prems by (simp add: updatePrinterData_inv)
  from Suc.IH [OF m Suc.prems(2)] obtain this' where
    r: "run (replicate n (UpdatePrinterData now r1 r2 pd)) ?s = Inr this'" "isMonitoring this'"
      "positions (dataBuffer this') = positions (dataBuffer ?s)
          @ replicate n \<lparr>ps_position = pos, ps_timestamp = now\<rparr>"
    by blast
  with Suc.prems show ?case
    by (simp add: updatePrinterData_positions replicate_app_Cons_same)
qed

lemma quiet_run:
  assumes "isMonitoring this" "\<forall>c \<in> set cs. within_layer (currentLayer this) c"
  shows "\<exists>this'. run cs this = Inr this' \<and> isMonitoring this'
     \<and> currentLayer this' = currentLayer this
     \<and> console_runs this' = console_runs this
         @ (if currentLayer this > 0 \<and> currentLayer this mod 10 = 0
            then replicate (length cs) (currentLayer this) else [])"
  using assms
proof (induction cs arbitrary: this)
  case Nil
  then show ?case by simp
next
  case (Cons c cs)
  from Cons.prems(2) obtain now r1 r2 pd where c: "c = UpdatePrinterData now r1 r2 pd"
    and z: "case pd_position pd of None \<Rightarrow> True
            | Some pos \<Rightarrow> \<lfloor>pos_z pos / layerHeight\<rfloor> \<le> currentLayer this"
    by (auto simp: within_layer_def split: call.splits)
  let ?s = "updatePrinterData now r1 r2 pd this"
  have m: "isMonitoring ?s" using Cons.prems by (simp add: updatePrinterData_inv)
  have l: "currentLayer ?s = currentLayer this"
    using Cons.prems(1) z by (simp add: updatePrinterData_layer split: option.splits)
  have runs: "console_runs ?s = console_runs this
         @ (if currentLayer this > 0 \<and> currentLayer this mod 10 = 0
            then [currentLayer this] else [])"
    using Cons.prems(1) z l by (simp add: updatePrinterData_runs split: option.splits)
  from Cons.prems(2) l have "\<forall>c \<in> set cs. within_layer (currentLayer ?s) c" by simp
  from Cons.IH [OF m this] obtain this' where
    r: "run cs ?s = Inr this'" "isMonitoring this'" "currentLayer this' = currentLayer ?s"
       "console_runs this' = console_runs ?s
         @ (if currentLayer ?s > 0 \<and> currentLayer ?s mod 10 = 0
            then replicate (length cs) (currentLayer ?s) else [])"
    by blast
  with c l runs show ?case by simp
qed

text \<open>
  Claim C9. \<open>startMonitoring\<close> resets the data buffers and the alert list but not
  \<open>currentLayer\<close>: when a monitor whose layer is \<open>L\<close> is stopped and started again, the
  new session begins at layer \<open>L\<close> with empty buffers and no alerts. From then on a
  position with \<open>floor (z / 0.2) \<le> L\<close> leaves the tracker's state untouched (no advance,
  no evaluation from the layer cadence), and after any sequence of printer updates
  with such positions the layer is still \<open>L\<close> and the only evaluations that ran are those
  of the update path's own check (one per update when \<open>L\<close> is a positive multiple of 10,
  none otherwise).
\<close>

theorem restart_keeps_layer:
  assumes "currentLayer this = L"
    and "this' = snd (startMonitoring now2 n (snd (stopMonitoring now1 this)))"
  shows "currentLayer this' = L \<and> dataBuffer this' = empty_buffer \<and> alerts this' = []
     \<and> isMonitoring this'
     \<and> (\<forall>s now rnd z. currentLayer s = L \<and> \<lfloor>z / layerHeight\<rfloor> \<le> L
            \<longrightarrow> updateLayerTracking now rnd z s = s)
     \<and> (\<forall>cs. (\<forall>c \<in> set cs. within_layer L c) \<longrightarrow>
            (\<exists>this''. run cs this' = Inr this'' \<and> currentLayer this'' = L
               \<and> console_runs this'' = console_runs this'
                    @ (if L > 0 \<and> L mod 10 = 0 then replicate (length cs) L else [])))"
proof -
  have a: "currentLayer this' = L" "dataBuffer this' = empty_buffer" "alerts this' = []"
    "isMonitoring this'"
    using assms by (simp_all add: startMonitoring_frame stopMonitoring_frame)
  have b: "\<forall>s now rnd z. currentLayer s = L \<and> \<lfloor>z / layerHeight\<rfloor> \<le> L
            \<longrightarrow> updateLayerTracking now rnd z s = s"
    by (simp add: updateLayerTracking_idle)
  have c: "\<exists>this''. run cs this' = Inr this'' \<and> currentLayer this'' = L
               \<and> console_runs this'' = console_runs this'
                    @ (if L > 0 \<and> L mod 10 = 0 then replicate (length cs) L else [])"
    if "\<forall>c \<in> set cs. within_layer L c" for cs
    using quiet_run [of this' cs] a that by auto
  from a b c show ?thesis by blast
qed

theorem restart_keeps_layer_witness:
  "currentLayer (new_monitor\<lparr>currentLayer := 7\<rparr>) = 7
   \<and> currentLayer (snd (startMonitoring 9 None
         (snd (stopMonitoring 5 (new_monitor\<lparr>currentLayer := 7\<rparr>))))) = 7
   \<and> \<lfloor>(1::real) / layerHeight\<rfloor> \<le> 7
   \<and> updateLayerTracking 0 zero_draws 1 (new_monitor\<lparr>currentLayer := 7\<rparr>)
       = new_monitor\<lparr>currentLayer := 7\<rparr>
   \<and> within_layer 7 (UpdatePrinterData 10 zero_draws zero_draws at_origin)
   \<and> (\<exists>this''. run [UpdatePrinterData 10 zero_draws zero_draws at_origin]
           (snd (startMonitoring 9 None (snd (stopMonitoring 5 (new_monitor\<lparr>currentLayer := 7\<rparr>)))))
         = Inr this'' \<and> currentLayer this'' = 7)"
proof -
  let ?m = "new_monitor\<lparr>currentLayer := 7\<rparr>"
  have l: "currentLayer ?m = 7" by simp
  note t = restart_keeps_layer [where this = ?m and L = 7 and ?now2.0 = 9 and n = None
      and ?now1.0 = 5, OF l refl]
  have z: "\<lfloor>(1::real) / layerHeight\<rfloor> \<le> 7" by (simp add: layerHeight_def)
  have w: "\<forall>c \<in> set [UpdatePrinterData 10 zero_draws zero_draws at_origin]. within_layer 7 c"
    by (simp add: within_layer_def at_origin_def layerHeight_def)
  from t l have a: "currentLayer (snd (startMonitoring 9 None (snd (stopMonitoring 5 ?m)))) = 7"
    by simp
  from t l z have b: "updateLayerTracking 0 zero_draws 1 ?m = ?m"
    by blast
  from t l w have c: "\<exists>this''. run [UpdatePrinterData 10 zero_draws zero_draws at_origin]
           (snd (startMonitoring 9 None (snd (stopMonitoring 5 ?m)))) = Inr this''
         \<and> currentLayer this'' = 7"
    by blast
  from w have w': "within_layer 7 (UpdatePrinterData 10 zero_draws zero_draws at_origin)"
    by simp
  from l a z b w' c show ?thesis by blast
qed

text \<open>
  Claim C3, as stated, fails: the code keeps no count of updates. Ten accepted printer
  updates at layer 0 run no evaluation at all.
\<close>

theorem update_count_counterexample:
  "map_sum id console_runs
     (run (StartMonitoring 0 None # replicate 10 (UpdatePrinterData 0 zero_draws zero_draws at_origin))
        new_monitor) = Inr []"
proof -
  let ?s = "snd (startMonitoring 0 None new_monitor)"
  have w: "\<forall>c \<in> set (replicate 10 (UpdatePrinterData 0 zero_draws zero_draws at_origin)).
      within_layer (currentLayer ?s) c"
    by (simp add: within_layer_def at_origin_def startMonitoring_frame new_monitor_def)
  from quiet_run [OF startMonitoring_frame(2) [of 0 None new_monitor] w]
  show ?thesis by (auto simp: startMonitoring_frame new_monitor_def)
qed

text \<open>
  Claim C3, amended. While monitoring, an accepted \<open>updatePrinterData\<close> call runs, after
  the evaluation of the layer cadence (if the call advanced the layer to one that is at
  most 5 or a multiple of 20), a second evaluation exactly when the layer index after
  the call is a positive multiple of 10: on every such call, whatever the number of
  updates accepted so far, and independently of the layer cadence.
\<close>

theorem update_cadence:
  assumes "isMonitoring this"
    and "this' = updatePrinterData now r1 r2 pd this"
  shows "console_runs this' =
     console_runs this
     @ (case pd_position pd of
          None \<Rightarrow> []
        | Some pos \<Rightarrow>
            if \<lfloor>pos_z pos / layerHeight\<rfloor> > currentLayer this
               \<and> (\<lfloor>pos_z pos / layerHeight\<rfloor> \<le> 5 \<or> \<lfloor>pos_z pos / layerHeight\<rfloor> mod 20 = 0)
            then [\<lfloor>pos_z pos / layerHeight\<rfloor>] else [])
     @ (if currentLayer this' > 0 \<and> currentLayer this' mod 10 = 0
        then [currentLayer this'] else [])"
  using assms updatePrinterData_runs [of this now r1 r2 pd] by simp

theorem update_cadence_witness:
  "isMonitoring (snd (startMonitoring 0 None (new_monitor\<lparr>currentLayer := 10\<rparr>)))
   \<and> console_runs (updatePrinterData 1 zero_draws zero_draws at_origin
        (snd (startMonitoring 0 None (new_monitor\<lparr>currentLayer := 10\<rparr>)))) = [10]"
  using update_cadence [where this = "snd (startMonitoring 0 None (new_monitor\<lparr>currentLayer := 10\<rparr>))"
      and now = 1 and ?r1.0 = zero_draws and ?r2.0 = zero_draws and pd = at_origin,
      OF startMonitoring_frame(2) refl]
  by (simp add: startMonitoring_frame updatePrinterData_layer at_origin_def layerHeight_def
      new_monitor_def)

text \<open>
  Claim C2 against the code. \<open>updateSensorData\<close> keeps the last 100 readings of every
  channel, \<open>positions\<close> included, but \<open>updatePrinterData\<close> pushes on \<open>positions\<close> and
  \<open>temperature\<close> without that step: after a session start and 101 printer updates that
  carry a position, \<open>positions\<close> holds 101 entries.
\<close>

theorem printer_updates_exceed_capacity:
  "map_sum id (\<lambda>this. length (positions (dataBuffer this)))
     (run (StartMonitoring 0 None # replicate 101 (UpdatePrinterData 0 zero_draws zero_draws at_origin))
        new_monitor) = Inr 101"
proof -
  have p: "pd_position at_origin = Some \<lparr>pos_x = 0, pos_y = 0, pos_z = 0\<rparr>"
    by (simp add: at_origin_def)
  from positions_grow [OF startMonitoring_frame(2) [of 0 None new_monitor] p, of 101 0 zero_draws zero_draws]
  show ?thesis by (auto simp: startMonitoring_frame empty_buffer_def)
qed

lemma trim_last: "trim xs = slice_last 100 xs"
  by (simp add: trim_def slice_last_def)

lemma slice_last_length: "length (slice_last n xs) \<le> n"
  by (simp add: slice_last_def)

lemma updateSensorData_bounded:
  assumes "isMonitoring this" and "currentPrint this \<noteq> None"
  shows "\<exists>this'. updateSensorData now sd this = Inr this'
     \<and> temperature (dataBuffer this') = slice_last 100 (temperature (dataBuffer this)
           @ (case sd_temperature sd of None \<Rightarrow> [] | Some v \<Rightarrow> [v]))
     \<and> vibration (dataBuffer this') = slice_last 100 (vibration (dataBuffer this)
           @ (case sd_vibration sd of None \<Rightarrow> [] | Some v \<Rightarrow> [v]))
     \<and> filamentFlow (dataBuffer this') = slice_last 100 (filamentFlow (dataBuffer this)
           @ (case sd_filamentFlow sd of None \<Rightarrow> [] | Some v \<Rightarrow> [v]))
     \<and> positions (dataBuffer this') = slice_last 100 (positions (dataBuffer this))
     \<and> length (temperature (dataBuffer this')) \<le> 100
     \<and> length (vibration (dataBuffer this')) \<le> 100
     \<and> length (filamentFlow (dataBuffer this')) \<le> 100
     \<and> length (positions (dataBuffer this')) \<le> 100"
proof -
  obtain this0 where u: "updateSensorData now sd this = checkRealTimeAlerts now sd this0"
    and f: "currentPrint this0 = currentPrint this"
      "temperature (dataBuffer this0) = trim (temperature (dataBuffer this)
           @ (case sd_temperature sd of None \<Rightarrow> [] | Some v \<Rightarrow> [v]))"
      "vibration (dataBuffer this0) = trim (vibration (dataBuffer this)
           @ (case sd_vibration sd of None \<Rightarrow> [] | Some v \<Rightarrow> [v]))"
      "filamentFlow (dataBuffer this0) = trim (filamentFlow (dataBuffer this)
           @ (case sd_filamentFlow sd of None \<Rightarrow> [] | Some v \<Rightarrow> [v]))"
      "positions (dataBuffer this0) = trim (positions (dataBuffer this))"
    using assms(1) by (simp add: updateSensorData_def Let_def split: option.split)
  from checkRealTimeAlerts_ok [of this0 now sd] assms(2) f(1) obtain this' where
    c: "checkRealTimeAlerts now sd this0 = Inr this'" "dataBuffer this' = dataBuffer this0"
    by auto
  from u c f(2-) show ?thesis
    by (simp add: trim_last slice_last_length)
qed

lemmas sensor_eval = startMonitoring_def updateSensorData_def checkRealTimeAlerts_def
  getCurrentStatus_def new_monitor_def hot_def js_gt_def js_lt_def Let_def trim_def
  slice_last_def one_hour_def clearDataBuffer_def empty_buffer_def

text \<open>
  Claim C5, as stated, fails. A status query does not prune: an alert raised at time 0
  is still returned by a query 61 minutes later. And a status query returns the last 5
  alerts only: an alert 59 minutes old that was followed by five more is not returned.
\<close>

theorem stale_alert_counterexample:
  "map_sum id (\<lambda>this. st_alerts (getCurrentStatus (61 * 60 * 1000) this))
     (run [StartMonitoring 0 None, UpdateSensorData 0 hot] new_monitor)
     = Inr [ThresholdAlert ''warning'' ''High temperature detected'' 300 0]
   \<and> map_sum id (\<lambda>this. st_alerts (getCurrentStatus (59 * 60 * 1000) this))
     (run [StartMonitoring 0 None, UpdateSensorData 0 hot, UpdateSensorData 1 hot,
           UpdateSensorData 2 hot, UpdateSensorData 3 hot, UpdateSensorData 4 hot,
           UpdateSensorData 5 hot] new_monitor)
     = Inr [ThresholdAlert ''warning'' ''High temperature detected'' 300 1,
            ThresholdAlert ''warning'' ''High temperature detected'' 300 2,
            ThresholdAlert ''warning'' ''High temperature detected'' 300 3,
            ThresholdAlert ''warning'' ''High temperature detected'' 300 4,
            ThresholdAlert ''warning'' ''High temperature detected'' 300 5]"
  by (simp add: sensor_eval)

lemma getCurrentStatus_alerts:
  assumes "isMonitoring this" "currentPrint this \<noteq> None"
  shows "getCurrentStatus now this \<noteq> NotMonitoring
     \<and> st_alerts (getCurrentStatus now this) = slice_last 5 (alerts this)"
  using assms by (simp add: getCurrentStatus_def Let_def)

lemma seven_alerts_reached:
  "run [StartMonitoring 0 None, UpdateSensorData 0 hot, UpdateSensorData 120000 hot,
        UpdateSensorData 180000 hot, UpdateSensorData 240000 hot, UpdateSensorData 300000 hot,
        UpdateSensorData 360000 hot, UpdateSensorData 420000 hot] new_monitor
     = Inr seven_alerts"
  by (simp add: sensor_eval seven_alerts_def high_temperature_def)

text \<open>
  Claim C5, amended. Alerts older than one hour are pruned at the end of every accepted
  \<open>updateSensorData\<close> call, relative to the clock of that call: afterwards the list holds
  the earlier alerts whose timestamp is later than \<open>now - 1h\<close>, in order, followed by the
  alerts the call raised, and nothing older. A status query returns the last 5 entries
  of the stored list.
\<close>

theorem alerts_pruned_on_sensor_update:
  assumes "isMonitoring this" and "currentPrint this \<noteq> None"
  shows "(\<exists>this' new. updateSensorData now sd this = Inr this'
           \<and> alerts this' = filter (\<lambda>a. timestamp a > now - one_hour) (alerts this) @ new
           \<and> (\<forall>a \<in> set new. timestamp a = now)
           \<and> (\<forall>a \<in> set (alerts this'). timestamp a > now - one_hour))
     \<and> getCurrentStatus now' this \<noteq> NotMonitoring
     \<and> st_alerts (getCurrentStatus now' this) = slice_last 5 (alerts this)"
proof -
  from updateSensorData_ok [OF assms, of now sd] obtain this' new where
    u: "updateSensorData now sd this = Inr this'"
       "alerts this' = filter (\<lambda>a. timestamp a > now - one_hour) (alerts this) @ new"
       "\<forall>a \<in> set new. timestamp a = now"
    by blast
  have "\<forall>a \<in> set (alerts this'). timestamp a > now - one_hour"
    using u(2,3) by (auto simp: one_hour_def)
  with u getCurrentStatus_alerts [OF assms, of now'] show ?thesis by blast
qed

theorem alerts_pruned_on_sensor_update_witness:
  "isMonitoring seven_alerts \<and> currentPrint seven_alerts \<noteq> None
   \<and> alerts seven_alerts =
        [high_temperature 0, high_temperature 120000, high_temperature 180000,
         high_temperature 240000, high_temperature 300000, high_temperature 360000,
         high_temperature 420000]
   \<and> (\<exists>this'. updateSensorData (61 * 60 * 1000) hot seven_alerts = Inr this'
         \<and> filter (\<lambda>a. timestamp a \<noteq> 61 * 60 * 1000) (alerts this') =
              [high_temperature 120000, high_temperature 180000, high_temperature 240000,
               high_temperature 300000, high_temperature 360000, high_temperature 420000]
         \<and> high_temperature 0 \<notin> set (alerts this'))
   \<and> st_alerts (getCurrentStatus (61 * 60 * 1000) seven_alerts) =
        [high_temperature 180000, high_temperature 240000, high_temperature 300000,
         high_temperature 360000, high_temperature 420000]"
proof -
  have m: "isMonitoring seven_alerts" and p: "currentPrint seven_alerts \<noteq> None"
    and a: "alerts seven_alerts =
        [high_temperature 0, high_temperature 120000, high_temperature 180000,
         high_temperature 240000, high_temperature 300000, high_temperature 360000,
         high_temperature 420000]"
    by (simp_all add: seven_alerts_def)
  note t = alerts_pruned_on_sensor_update [OF m p, of "61 * 60 * 1000" hot "61 * 60 * 1000"]
  from t obtain this' new where
    u: "updateSensorData (61 * 60 * 1000) hot seven_alerts = Inr this'"
      "alerts this' = filter (\<lambda>a. timestamp a > 61 * 60 * 1000 - one_hour) (alerts seven_alerts) @ new"
      "\<forall>a \<in> set new. timestamp a = 61 * 60 * 1000"
    by blast
  have old: "filter (\<lambda>a. timestamp a > 61 * 60 * 1000 - one_hour) (alerts seven_alerts) =
      [high_temperature 120000, high_temperature 180000, high_temperature 240000,
       high_temperature 300000, high_temperature 360000, high_temperature 420000]"
    by (simp add: a high_temperature_def one_hour_def)
  have new: "filter (\<lambda>a. timestamp a \<noteq> 61 * 60 * 1000) new = []"
    using u(3) by (simp add: filter_empty_conv)
  have kept: "filter (\<lambda>a. timestamp a \<noteq> 61 * 60 * 1000) (alerts this') =
      [high_temperature 120000, high_temperature 180000, high_temperature 240000,
       high_temperature 300000, high_temperature 360000, high_temperature 420000]"
    unfolding u(2) old filter_append new by (simp add: high_temperature_def)
  have gone: "high_temperature 0 \<notin> set (alerts this')"
    unfolding u(2) old using u(3) by (auto simp: high_temperature_def)
  from t have s: "st_alerts (getCurrentStatus (61 * 60 * 1000) seven_alerts) =
        [high_temperature 180000, high_temperature 240000, high_temperature 300000,
         high_temperature 360000, high_temperature 420000]"
    by (simp add: a slice_last_def)
  from m p a u(1) kept gone s show ?thesis by blast
qed

end
